theory Spec2Isabelle
  imports Complex_Main
begin

section \<open>LSCP: the ensemble of \<^verbatim>\<open>examples/temp_do_not_use_lscp.py\<close>\<close>

text \<open>
  A shallow embedding of the class \<^verbatim>\<open>LSCP\<close> and of the module functions it calls.
  Python names are kept; a leading or trailing underscore is dropped
  (\<^verbatim>\<open>_get_local_region\<close> is \<open>get_local_region\<close>, \<^verbatim>\<open>X_train_norm_\<close> is
  \<open>X_train_norm\<close>) and \<^verbatim>\<open>__init__\<close> is \<open>LSCP_init\<close>.
\<close>

subsection \<open>Values, errors and the library interface\<close>

text \<open>
  The exceptions the code can raise. \<^verbatim>\<open>assert\<close> raises \<open>AssertionError\<close>; sklearn's and
  numpy's argument checks raise \<open>ValueError\<close>; \<^verbatim>\<open>check_is_fitted\<close> raises
  \<open>NotFittedError\<close>; an index outside an array raises \<open>IndexError\<close>.
\<close>

datatype error = AssertionError | ValueError | NotFittedError | IndexError

text \<open>
  A float64 is a real number or NaN: rounding is not modelled, the undefined value is.
\<close>

datatype npfloat = Fin real | NaN

type_synonym matrix = "real list list"

text \<open>A base detector, seen through \<^verbatim>\<open>predict\<close>: one score per row of the matrix.\<close>

type_synonym detector = "matrix \<Rightarrow> real list"

text \<open>
  The argument \<^verbatim>\<open>random_state\<close>: an integer seed, or a \<^verbatim>\<open>RandomState\<close> object
  whose state is \<open>'rng\<close>. (\<^verbatim>\<open>None\<close>, numpy's global generator, is not modelled.)
\<close>

datatype 'rng random_state = Seed int | Instance 'rng

text \<open>
  The library functions the module imports and whose code is not part of it. Each is a
  parameter of the model:
  \<^item> \<open>RandomState seed\<close> is \<^verbatim>\<open>np.random.RandomState(seed)\<close>;
  \<^item> \<open>randint rs low high\<close> is \<^verbatim>\<open>rs.randint(low, high)\<close>: the number drawn and the
    generator's next state, or the error raised;
  \<^item> \<open>sample_without_replacement n_population n_samples rs\<close> is sklearn's function of
    that name;
  \<^item> \<open>KDTree_query train test k\<close> is \<^verbatim>\<open>KDTree(train).query(test, k=k)[1]\<close>: for every
    row of \<open>test\<close> the indices of its \<open>k\<close> nearest rows of \<open>train\<close>;
  \<^item> \<open>standardizer\<close> is \<^verbatim>\<open>pyod.utils.utility.standardizer\<close>;
  \<^item> \<open>check_estimator e\<close> is sklearn's validation of an estimator: \<open>None\<close> when it
    passes, the error it raises otherwise.
\<close>

record 'rng library =
  RandomState :: "int \<Rightarrow> 'rng"
  randint :: "'rng \<Rightarrow> int \<Rightarrow> int \<Rightarrow> error + int \<times> 'rng"
  sample_without_replacement :: "nat \<Rightarrow> int \<Rightarrow> 'rng \<Rightarrow> error + nat list \<times> 'rng"
  KDTree_query :: "matrix \<Rightarrow> matrix \<Rightarrow> int \<Rightarrow> error + nat list list"
  standardizer :: "matrix \<Rightarrow> matrix"
  check_estimator :: "detector \<Rightarrow> error option"

text \<open>Python's \<^verbatim>\<open>int(x)\<close> on a float truncates towards zero.\<close>

definition py_int :: "real \<Rightarrow> int" where
  "py_int x = (if 0 \<le> x then \<lfloor>x\<rfloor> else \<lceil>x\<rceil>)"

subsection \<open>The object\<close>

text \<open>What \<^verbatim>\<open>fit\<close> stores (the four attributes \<^verbatim>\<open>check_is_fitted\<close> asks for).\<close>

record training_set =
  n_features :: nat
  X_train_norm :: matrix
  train_scores_norm :: matrix
  training_pseudo_label :: "real list"

text \<open>The attributes of an \<^verbatim>\<open>LSCP\<close> object; \<open>training\<close> is \<open>None\<close> before \<^verbatim>\<open>fit\<close>.\<close>

record 'rng lscp =
  estimator_list :: "detector list"
  n_clf :: nat
  n_iterations :: int
  local_region_size :: int
  local_region_min :: int
  local_region_max :: int
  local_max_features :: real
  local_min_features :: real
  local_region_iterations :: int
  local_region_threshold :: int
  n_bins :: int
  n_selected :: int
  random_state :: "'rng random_state"
  training :: "training_set option"

subsection \<open>\<^verbatim>\<open>LSCP.__init__\<close>\<close>

definition n_bins_warning :: string where
  "n_bins_warning =
     ''Number of histogram bins greater than number of classifiers, reducing n_bins to n_clf.''"

text \<open>The loop \<^verbatim>\<open>for estimator in self.estimator_list: check_estimator(estimator)\<close>.\<close>

fun check_estimators :: "'rng library \<Rightarrow> detector list \<Rightarrow> error option" where
  "check_estimators L [] = None"
| "check_estimators L (e # es) =
     (case check_estimator L e of
        Some err \<Rightarrow> Some err
      | None \<Rightarrow> check_estimators L es)"

text \<open>
  The constructor returns the object and the warnings it issued, or the error raised.
\<close>

definition LSCP_init ::
  "'rng library \<Rightarrow> detector list \<Rightarrow> int \<Rightarrow> int \<Rightarrow> real \<Rightarrow> int \<Rightarrow> 'rng random_state
     \<Rightarrow> error + 'rng lscp \<times> string list" where
  "LSCP_init L estimators n_iter region_size max_features bins rs =
     (let self = \<lparr> estimator_list = estimators,
                    n_clf = length estimators,
                    n_iterations = n_iter,
                    local_region_size = region_size,
                    local_region_min = 30,
                    local_region_max = 100,
                    local_max_features = max_features,
                    local_min_features = 1 / 2,
                    local_region_iterations = 20,
                    local_region_threshold = py_int (real_of_int 20 / 2),
                    n_bins = bins,
                    n_selected = 1,
                    random_state = rs,
                    training = None \<rparr>
      in if \<not> 1 < length estimators then Inl AssertionError
         else
           let (self, warnings) =
                 (if int (n_clf self) \<le> n_bins self
                  then (self\<lparr>n_bins := int (n_clf self)\<rparr>, [n_bins_warning])
                  else (self, []))
           in case check_estimators L (estimator_list self) of
                Some err \<Rightarrow> Inl err
              | None \<Rightarrow> Inr (self, warnings))"

subsection \<open>Drawing the feature subset\<close>

text \<open>\<^verbatim>\<open>check_random_state\<close>: a fresh generator from a seed, the object itself otherwise.\<close>

fun check_random_state :: "'rng library \<Rightarrow> 'rng random_state \<Rightarrow> 'rng" where
  "check_random_state L (Seed n) = RandomState L n"
| "check_random_state L (Instance rs) = rs"

text \<open>
  A failing library call leaves the generator as it was before the call; every function
  below returns the generator with its result, since a \<^verbatim>\<open>RandomState\<close> object passed
  in is changed in place.

  \<^verbatim>\<open>random_state.randint(0, n_population, n_samples)\<close>: \<open>n_samples\<close> draws, one after
  the other.
\<close>

fun randint_array ::
  "'rng library \<Rightarrow> 'rng \<Rightarrow> int \<Rightarrow> int \<Rightarrow> nat \<Rightarrow> (error + nat list) \<times> 'rng" where
  "randint_array L rs low high 0 = (if low < high then (Inr [], rs) else (Inl ValueError, rs))"
| "randint_array L rs low high (Suc n) =
     (case randint L rs low high of
        Inl e \<Rightarrow> (Inl e, rs)
      | Inr (v, rs') \<Rightarrow>
          (case randint_array L rs' low high n of
             (Inl e, rs'') \<Rightarrow> (Inl e, rs'')
           | (Inr vs, rs'') \<Rightarrow> (Inr (nat v # vs), rs'')))"

definition generate_indices ::
  "'rng library \<Rightarrow> 'rng \<Rightarrow> bool \<Rightarrow> nat \<Rightarrow> int \<Rightarrow> (error + nat list) \<times> 'rng" where
  "generate_indices L rs bootstrap n_population n_samples =
     (if bootstrap
      then (if n_samples < 0 then (Inl ValueError, rs)
            else randint_array L rs 0 (int n_population) (nat n_samples))
      else (case sample_without_replacement L n_population n_samples rs of
              Inl e \<Rightarrow> (Inl e, rs)
            | Inr (indices, rs') \<Rightarrow> (Inr indices, rs')))"

definition generate_bagging_indices ::
  "'rng library \<Rightarrow> 'rng random_state \<Rightarrow> bool \<Rightarrow> nat \<Rightarrow> int \<Rightarrow> int
     \<Rightarrow> (error + nat list) \<times> 'rng" where
  "generate_bagging_indices L rstate bootstrap_features n_feat min_features max_features =
     (let rs = check_random_state L rstate
      in case randint L rs min_features max_features of
           Inl e \<Rightarrow> (Inl e, rs)
         | Inr (random_n_features, rs') \<Rightarrow>
             generate_indices L rs' bootstrap_features n_feat random_n_features)"

subsection \<open>\<^verbatim>\<open>LSCP._get_local_region\<close>\<close>

text \<open>\<^verbatim>\<open>M.shape[1]\<close> of a matrix with at least one row.\<close>

definition shape1 :: "matrix \<Rightarrow> nat" where
  "shape1 M = (case M of [] \<Rightarrow> 0 | r # _ \<Rightarrow> length r)"

text \<open>\<^verbatim>\<open>M[:, features]\<close>.\<close>

definition select_columns :: "matrix \<Rightarrow> nat list \<Rightarrow> error + matrix" where
  "select_columns M features =
     (if list_all (\<lambda>f. f < shape1 M) features
      then Inr (map (\<lambda>row. map (\<lambda>f. row ! f) features) M)
      else Inl IndexError)"

text \<open>
  \<^verbatim>\<open>collections.Counter(xs).items()\<close>: every distinct item with its number of
  occurrences, in the order of first occurrence.
\<close>

fun counter_add :: "'a \<Rightarrow> ('a \<times> nat) list \<Rightarrow> ('a \<times> nat) list" where
  "counter_add x [] = [(x, 1)]"
| "counter_add x ((y, c) # r) =
     (if x = y then (y, Suc c) # r else (y, c) # counter_add x r)"

definition Counter :: "'a list \<Rightarrow> ('a \<times> nat) list" where
  "Counter xs = foldl (\<lambda>acc x. counter_add x acc) [] xs"

text \<open>
  The feature subset of one pass (lines 190 to 196): between
  \<^verbatim>\<open>int(n_features * local_min_features)\<close> and \<^verbatim>\<open>n_features\<close> features, the bounds as
  \<^verbatim>\<open>randint\<close> reads them.
\<close>

definition draw_features ::
  "'rng library \<Rightarrow> 'rng lscp \<Rightarrow> training_set \<Rightarrow> (error + nat list) \<times> 'rng" where
  "draw_features L self tr =
     generate_bagging_indices L (random_state self) False
       (shape1 (X_train_norm tr))
       (py_int (real (shape1 (X_train_norm tr)) * local_min_features self))
       (int (shape1 (X_train_norm tr)))"

text \<open>
  A generator object held in \<open>random_state\<close> has advanced; an integer seed is an integer
  still.
\<close>

fun advance :: "'rng random_state \<Rightarrow> 'rng \<Rightarrow> 'rng random_state" where
  "advance (Seed n) rs = Seed n"
| "advance (Instance old) rs = Instance rs"

text \<open>\<^verbatim>\<open>grid[j] = grid[j] + ind_arr[j, :].tolist()\<close> for every \<open>j\<close>.\<close>

definition extend_grid :: "nat list list \<Rightarrow> nat list list \<Rightarrow> error + nat list list" where
  "extend_grid grid ind_arr =
     (if length ind_arr < length grid then Inl IndexError
      else Inr (map (\<lambda>(g, r). g @ r) (zip grid ind_arr)))"

text \<open>
  Lines 198 to 200: the tree over the training rows restricted to \<open>features\<close>, asked
  for the \<open>k\<close> nearest training rows of every test row, restricted likewise.
\<close>

definition query_with ::
  "'rng library \<Rightarrow> training_set \<Rightarrow> matrix \<Rightarrow> int \<Rightarrow> nat list \<Rightarrow> error + nat list list" where
  "query_with L tr X_test_norm k features =
     (case select_columns (X_train_norm tr) features of
        Inl e \<Rightarrow> Inl e
      | Inr train_f \<Rightarrow>
          (case select_columns X_test_norm features of
             Inl e \<Rightarrow> Inl e
           | Inr test_f \<Rightarrow> KDTree_query L train_f test_f k))"

text \<open>One pass of the loop over \<open>t\<close>: the body of lines 190 to 203.\<close>

definition region_pass ::
  "'rng library \<Rightarrow> training_set \<Rightarrow> matrix \<Rightarrow> nat list list \<Rightarrow> 'rng lscp
     \<Rightarrow> (error + nat list list) \<times> 'rng lscp" where
  "region_pass L tr X_test_norm grid self =
     (case draw_features L self tr of
        (drawn, rs) \<Rightarrow>
          (let self' = self\<lparr>random_state := advance (random_state self) rs\<rparr>
           in case drawn of
                Inl e \<Rightarrow> (Inl e, self')
              | Inr features \<Rightarrow>
                  (case query_with L tr X_test_norm (local_region_size self') features of
                     Inl e \<Rightarrow> (Inl e, self')
                   | Inr ind_arr \<Rightarrow> (extend_grid grid ind_arr, self'))))"

text \<open>\<^verbatim>\<open>for t in range(...)\<close>: \<open>n\<close> passes, one after the other; an error ends the loop.\<close>

fun region_loop ::
  "'rng library \<Rightarrow> training_set \<Rightarrow> matrix \<Rightarrow> nat \<Rightarrow> nat list list \<Rightarrow> 'rng lscp
     \<Rightarrow> (error + nat list list) \<times> 'rng lscp" where
  "region_loop L tr X_test_norm 0 grid self = (Inr grid, self)"
| "region_loop L tr X_test_norm (Suc n) grid self =
     (case region_pass L tr X_test_norm grid self of
        (Inl e, self') \<Rightarrow> (Inl e, self')
      | (Inr grid', self') \<Rightarrow> region_loop L tr X_test_norm n grid' self')"

text \<open>The items of one accumulated row whose count is above the threshold.\<close>

definition consensus :: "int \<Rightarrow> nat list \<Rightarrow> nat list" where
  "consensus threshold g =
     map fst (filter (\<lambda>(item, count). threshold < int count) (Counter g))"

definition get_local_region ::
  "'rng library \<Rightarrow> 'rng lscp \<Rightarrow> training_set \<Rightarrow> matrix
     \<Rightarrow> (error + nat list list) \<times> 'rng lscp" where
  "get_local_region L self tr X_test_norm =
     (case region_loop L tr X_test_norm (nat (local_region_iterations self))
             (replicate (length X_test_norm) []) self of
        (Inl e, self') \<Rightarrow> (Inl e, self')
      | (Inr grid, self') \<Rightarrow>
          (Inr (map (consensus (local_region_threshold self')) grid), self'))"

subsection \<open>\<^verbatim>\<open>LSCP._get_competent_detectors\<close>\<close>

text \<open>The values of an array without NaN; \<open>None\<close> when it holds one.\<close>

fun finite_values :: "npfloat list \<Rightarrow> real list option" where
  "finite_values [] = Some []"
| "finite_values (NaN # xs) = None"
| "finite_values (Fin x # xs) = map_option ((#) x) (finite_values xs)"

text \<open>\<^verbatim>\<open>np.linspace(first, last, n + 1)\<close>: the edges of \<open>n\<close> bins of equal width.\<close>

definition linspace_edges :: "real \<Rightarrow> real \<Rightarrow> nat \<Rightarrow> real list" where
  "linspace_edges first_edge last_edge n =
     map (\<lambda>i. first_edge + real i * (last_edge - first_edge) / real n) [0..<Suc n]"

text \<open>
  \<^verbatim>\<open>np.histogram(a, bins=bins)\<close> for an integer \<open>bins\<close>, as numpy documents it: the
  range is \<^verbatim>\<open>[a.min(), a.max()]\<close>, widened by one half on either side when both are
  equal, and \<open>(0, 1)\<close> for an empty array; a range that is not finite and a number of
  bins below one raise \<^verbatim>\<open>ValueError\<close>; every bin is closed on the left and open on the
  right, the last one closed on both sides (\<open>in_bin edges n b x\<close>: the value \<open>x\<close> falls
  into bin \<open>b\<close> of \<open>n\<close>). The result is the counts and the edges.
\<close>

definition in_bin :: "real list \<Rightarrow> nat \<Rightarrow> nat \<Rightarrow> real \<Rightarrow> bool" where
  "in_bin edges n b x \<longleftrightarrow>
     edges ! b \<le> x \<and> (if Suc b = n then x \<le> edges ! Suc b else x < edges ! Suc b)"

definition np_histogram :: "npfloat list \<Rightarrow> int \<Rightarrow> error + nat list \<times> real list" where
  "np_histogram a bins =
     (if bins < 1 then Inl ValueError
      else case finite_values a of
             None \<Rightarrow> Inl ValueError
           | Some xs \<Rightarrow>
               (let n = nat bins;
                    lo = (if xs = [] then 0 else Min (set xs));
                    hi = (if xs = [] then 1 else Max (set xs));
                    first_edge = (if lo = hi then lo - 1 / 2 else lo);
                    last_edge = (if lo = hi then hi + 1 / 2 else hi);
                    edges = linspace_edges first_edge last_edge n;
                    hist = map (\<lambda>b. length (filter (in_bin edges n b) xs)) [0..<n]
                in Inr (hist, edges)))"

text \<open>
  Modelled from the spec: \<^verbatim>\<open>pyod.utils.utility.argmaxn\<close> is imported and its code is
  not in the module. The spec calls it the top-n index selection over the bin counts,
  which picks the \<open>n\<close> bins with the highest count, ties in the order of the primitive.
  Here: the indices of the \<open>n\<close> largest values, the largest first, a later index before
  an earlier one of the same value; \<open>n\<close> outside \<open>1 .. length\<close> is a \<^verbatim>\<open>ValueError\<close>.
\<close>

definition argmaxn :: "nat list \<Rightarrow> int \<Rightarrow> error + nat list" where
  "argmaxn value_list n =
     (if n < 1 \<or> int (length value_list) < n then Inl ValueError
      else Inr (take (nat n)
                  (rev (sort_key (\<lambda>i. value_list ! i) [0..<length value_list]))))"

text \<open>
  \<^verbatim>\<open>np.where((scores >= lo) & (scores <= hi))[0]\<close>: a comparison with NaN is false.
\<close>

definition np_where_between :: "npfloat list \<Rightarrow> real \<Rightarrow> real \<Rightarrow> nat list" where
  "np_where_between scores lo hi =
     filter (\<lambda>d. case scores ! d of Fin x \<Rightarrow> lo \<le> x \<and> x \<le> hi | NaN \<Rightarrow> False)
       [0..<length scores]"

text \<open>The loop \<^verbatim>\<open>for max_bin in max_bins\<close> of lines 226 to 231.\<close>

fun collect_candidates :: "npfloat list \<Rightarrow> real list \<Rightarrow> nat list \<Rightarrow> error + nat list" where
  "collect_candidates scores bin_edges [] = Inr []"
| "collect_candidates scores bin_edges (max_bin # rest) =
     (if Suc max_bin < length bin_edges
      then (case collect_candidates scores bin_edges rest of
              Inl e \<Rightarrow> Inl e
            | Inr candidates \<Rightarrow>
                Inr (np_where_between scores (bin_edges ! max_bin) (bin_edges ! Suc max_bin)
                       @ candidates))
      else Inl IndexError)"

definition get_competent_detectors :: "'rng lscp \<Rightarrow> npfloat list \<Rightarrow> error + nat list" where
  "get_competent_detectors self scores =
     (case np_histogram scores (n_bins self) of
        Inl e \<Rightarrow> Inl e
      | Inr (hist, bin_edges) \<Rightarrow>
          (case argmaxn hist (n_selected self) of
             Inl e \<Rightarrow> Inl e
           | Inr max_bins \<Rightarrow> collect_candidates scores bin_edges max_bins))"

subsection \<open>\<^verbatim>\<open>LSCP.decision_function\<close>\<close>

text \<open>
  sklearn's \<^verbatim>\<open>check_array\<close>, as far as the shape goes: a matrix of at least one row and
  one column, all rows of one length.
\<close>

definition check_array :: "matrix \<Rightarrow> error + matrix" where
  "check_array X =
     (if X = [] \<or> shape1 X = 0 \<or> \<not> list_all (\<lambda>r. length r = shape1 X) X
      then Inl ValueError else Inr X)"

text \<open>Lines 148 to 150: the two assignments to \<^verbatim>\<open>self.local_region_size\<close>.\<close>

definition clamp_region_size :: "'rng lscp \<Rightarrow> 'rng lscp" where
  "clamp_region_size self =
     (let self1 = self\<lparr>local_region_size :=
                         min (local_region_size self) (local_region_min self)\<rparr>
      in self1\<lparr>local_region_size :=
                  max (local_region_size self1) (local_region_max self1)\<rparr>)"

text \<open>
  Lines 157 to 159: a matrix of zeros with \<open>n_clf\<close> columns, column \<open>k\<close> overwritten
  with the scores of detector \<open>k\<close>.
\<close>

definition test_scores_of :: "'rng lscp \<Rightarrow> matrix \<Rightarrow> error + matrix" where
  "test_scores_of self X_test_norm =
     (if n_clf self < length (estimator_list self) then Inl IndexError
      else if \<not> list_all (\<lambda>est. length (est X_test_norm) = length X_test_norm)
                   (estimator_list self)
      then Inl ValueError
      else Inr (map (\<lambda>i. map (\<lambda>k. if k < length (estimator_list self)
                                    then (estimator_list self ! k) X_test_norm ! i else 0)
                            [0..<n_clf self])
                  [0..<length X_test_norm]))"

text \<open>\<^verbatim>\<open>arr[ind_k,]\<close>: the rows of \<open>arr\<close> at the indices \<open>ind_k\<close>.\<close>

definition local_rows :: "'a list \<Rightarrow> nat list \<Rightarrow> error + 'a list" where
  "local_rows arr ind_k =
     (if list_all (\<lambda>i. i < length arr) ind_k then Inr (map ((!) arr) ind_k)
      else Inl IndexError)"

text \<open>
  Modelled from the spec: \<^verbatim>\<open>pyod.utils.stat_models.pearsonr\<close> is imported and its code
  is not in the module. The spec's correlation utility returns a value in \<open>[-1, 1]\<close> or
  a defined undefined signal for degenerate (constant or length below 2) inputs. Here
  the signal is NaN, the value is the first component of the pair the call returns, and
  an input is constant when its sum of squared deviations from the mean is zero.
\<close>

definition pearsonr :: "real list \<Rightarrow> real list \<Rightarrow> npfloat" where
  "pearsonr x y =
     (let mx = sum_list x / real (length x);
          my = sum_list y / real (length y);
          xm = map (\<lambda>v. v - mx) x;
          ym = map (\<lambda>v. v - my) y;
          r_num = sum_list (map (\<lambda>(a, b). a * b) (zip xm ym));
          sxx = sum_list (map (\<lambda>a. a * a) xm);
          syy = sum_list (map (\<lambda>b. b * b) ym)
      in if length x < 2 \<or> sxx * syy = 0 then NaN
         else Fin (max (min (r_num / sqrt (sxx * syy)) 1) (- 1)))"

text \<open>Lines 169 to 175: the correlation of every detector within one local region.\<close>

definition pearson_corr_scores ::
  "'rng lscp \<Rightarrow> training_set \<Rightarrow> nat list \<Rightarrow> error + npfloat list" where
  "pearson_corr_scores self tr ind_k =
     (case local_rows (training_pseudo_label tr) ind_k of
        Inl e \<Rightarrow> Inl e
      | Inr local_pseudo_ground_truth \<Rightarrow>
          (case local_rows (train_scores_norm tr) ind_k of
             Inl e \<Rightarrow> Inl e
           | Inr local_train_scores \<Rightarrow>
               if shape1 (train_scores_norm tr) < n_clf self then Inl IndexError
               else Inr (map (\<lambda>d. pearsonr local_pseudo_ground_truth
                                     (map (\<lambda>row. row ! d) local_train_scores))
                           [0..<n_clf self])))"

text \<open>\<^verbatim>\<open>np.mean\<close>: NaN for an empty array.\<close>

definition np_mean :: "real list \<Rightarrow> npfloat" where
  "np_mean xs = (if xs = [] then NaN else Fin (sum_list xs / real (length xs)))"

text \<open>Lines 169 to 179: the score of test row \<open>i\<close>, whose local region is \<open>ind_k\<close>.\<close>

definition row_score ::
  "'rng lscp \<Rightarrow> training_set \<Rightarrow> matrix \<Rightarrow> nat \<Rightarrow> nat list \<Rightarrow> error + npfloat" where
  "row_score self tr test_scores_norm i ind_k =
     (case pearson_corr_scores self tr ind_k of
        Inl e \<Rightarrow> Inl e
      | Inr scores \<Rightarrow>
          (case get_competent_detectors self scores of
             Inl e \<Rightarrow> Inl e
           | Inr candidates \<Rightarrow>
               if i < length test_scores_norm \<and>
                  list_all (\<lambda>c. c < length (test_scores_norm ! i)) candidates
               then Inr (np_mean (map (\<lambda>c. test_scores_norm ! i ! c) candidates))
               else Inl IndexError))"

text \<open>\<^verbatim>\<open>for i, ind_k in enumerate(ind_arr)\<close>: the first error ends the loop.\<close>

fun score_rows ::
  "'rng lscp \<Rightarrow> training_set \<Rightarrow> matrix \<Rightarrow> nat \<Rightarrow> nat list list \<Rightarrow> error + npfloat list" where
  "score_rows self tr test_scores_norm i [] = Inr []"
| "score_rows self tr test_scores_norm i (ind_k # rest) =
     (case row_score self tr test_scores_norm i ind_k of
        Inl e \<Rightarrow> Inl e
      | Inr v \<Rightarrow>
          (case score_rows self tr test_scores_norm (Suc i) rest of
             Inl e \<Rightarrow> Inl e
           | Inr vs \<Rightarrow> Inr (v # vs)))"

text \<open>
  The method returns the scores or the error raised, and the object as the call leaves
  it.
\<close>

definition decision_function ::
  "'rng library \<Rightarrow> 'rng lscp \<Rightarrow> matrix \<Rightarrow> (error + npfloat list) \<times> 'rng lscp" where
  "decision_function L self X =
     (case training self of
        None \<Rightarrow> (Inl NotFittedError, self)
      | Some tr \<Rightarrow>
          (case check_array X of
             Inl e \<Rightarrow> (Inl e, self)
           | Inr X \<Rightarrow>
               if n_features tr \<noteq> shape1 X then (Inl ValueError, self)
               else
                 (let self = clamp_region_size self;
                      X_test_norm = standardizer L X
                  in case get_local_region L self tr X_test_norm of
                       (Inl e, self) \<Rightarrow> (Inl e, self)
                     | (Inr ind_arr, self) \<Rightarrow>
                         (case test_scores_of self X_test_norm of
                            Inl e \<Rightarrow> (Inl e, self)
                          | Inr test_scores \<Rightarrow>
                              (score_rows self tr (standardizer L test_scores) 0 ind_arr,
                               self)))))"

subsection \<open>What a call may change\<close>

text \<open>
  \<open>validated self X\<close>: the call \<^verbatim>\<open>decision_function(X)\<close> gets past the checks of
  lines 138 to 146 (the object is fitted, the input is a matrix of the recorded width).
\<close>

definition validated :: "'rng lscp \<Rightarrow> matrix \<Rightarrow> bool" where
  "validated self X \<longleftrightarrow>
     (case training self of
        None \<Rightarrow> False
      | Some tr \<Rightarrow> check_array X = Inr X \<and> n_features tr = shape1 X)"

text \<open>
  \<open>same_kind r r'\<close>: an integer seed is the same integer; a generator object is a
  generator object, in whatever state.
\<close>

fun same_kind :: "'rng random_state \<Rightarrow> 'rng random_state \<Rightarrow> bool" where
  "same_kind (Seed s) (Seed s') = (s = s')"
| "same_kind (Instance r) (Instance r') = True"
| "same_kind (Seed s) (Instance r') = False"
| "same_kind (Instance r) (Seed s') = False"

text \<open>Two objects equal in every attribute but the state of a generator object.\<close>

definition only_generator_advanced :: "'rng lscp \<Rightarrow> 'rng lscp \<Rightarrow> bool" where
  "only_generator_advanced self self' \<longleftrightarrow>
     self' = self\<lparr>random_state := random_state self'\<rparr> \<and>
     same_kind (random_state self) (random_state self')"

subsection \<open>What the libraries document\<close>

text \<open>
  numpy: \<^verbatim>\<open>randint(low, high)\<close> returns an integer from \<open>low\<close> (inclusive) to \<open>high\<close>
  (exclusive).
\<close>

definition randint_in_range :: "'rng library \<Rightarrow> bool" where
  "randint_in_range L \<longleftrightarrow>
     (\<forall>rs low high k rs'. randint L rs low high = Inr (k, rs') \<longrightarrow> low \<le> k \<and> k < high)"

text \<open>
  sklearn: \<^verbatim>\<open>sample_without_replacement(n_population, n_samples)\<close> returns \<open>n_samples\<close>
  distinct integers of \<open>[0, n_population)\<close>.
\<close>

definition sample_has_size :: "'rng library \<Rightarrow> bool" where
  "sample_has_size L \<longleftrightarrow>
     (\<forall>n_population n_samples rs indices rs'.
        sample_without_replacement L n_population n_samples rs = Inr (indices, rs') \<longrightarrow>
        int (length indices) = n_samples \<and> distinct indices \<and>
        list_all (\<lambda>i. i < n_population) indices)"

subsection \<open>A small instance of the library, and objects to evaluate the model on\<close>

text \<open>
  A generator whose state is a counter, a brute-force nearest-neighbour query by squared
  Euclidean distance, the identity for the standardizer, a validation every estimator
  passes. The instance meets what numpy and sklearn document: \<^verbatim>\<open>randint\<close> draws from
  \<open>low\<close> (included) to \<open>high\<close> (excluded) and raises when that range is empty; the sample
  has \<open>n_samples\<close> distinct indices below \<open>n_population\<close>; the query raises unless
  \<open>1 \<le> k \<le> \<close> the number of training rows.
\<close>

definition sqdist :: "real list \<Rightarrow> real list \<Rightarrow> real" where
  "sqdist p q = sum_list (map (\<lambda>(a, b). (a - b) * (a - b)) (zip p q))"

definition demo_library :: "nat library" where
  "demo_library =
     \<lparr> RandomState = (\<lambda>seed. nat \<bar>seed\<bar>),
       randint = (\<lambda>rs low high.
                    if low < high then Inr (low + int rs mod (high - low), Suc rs)
                    else Inl ValueError),
       sample_without_replacement = (\<lambda>n_population n_samples rs.
                    if n_samples < 0 \<or> int n_population < n_samples then Inl ValueError
                    else Inr (take (nat n_samples)
                                (rotate (rs mod Suc n_population) [0..<n_population]),
                              Suc rs)),
       KDTree_query = (\<lambda>train test k.
                    if k < 1 \<or> int (length train) < k then Inl ValueError
                    else Inr (map (\<lambda>q. take (nat k)
                                (sort_key (\<lambda>i. sqdist (train ! i) q) [0..<length train]))
                              test)),
       standardizer = (\<lambda>M. M),
       check_estimator = (\<lambda>e. None) \<rparr>"

definition det_sum :: detector where
  "det_sum X = map sum_list X"

definition det_first :: detector where
  "det_first X = map (\<lambda>r. case r of [] \<Rightarrow> 0 | v # _ \<Rightarrow> v) X"

definition demo_training :: training_set where
  "demo_training =
     \<lparr> n_features = 2,
       X_train_norm = [[0, 0], [1, 1], [2, 3], [5, 4]],
       train_scores_norm = [[0, 0], [1, 1], [1, 1], [0, 1]],
       training_pseudo_label = [0, 1, 1, 1] \<rparr>"

text \<open>
  The object \<^verbatim>\<open>LSCP([det_sum, det_first], local_region_size=2)\<close> with that training
  set stored.
\<close>

definition demo_lscp :: "nat lscp" where
  "demo_lscp =
     \<lparr> estimator_list = [det_sum, det_first],
       n_clf = 2,
       n_iterations = 20,
       local_region_size = 2,
       local_region_min = 30,
       local_region_max = 100,
       local_max_features = 1,
       local_min_features = 1 / 2,
       local_region_iterations = 20,
       local_region_threshold = 10,
       n_bins = 2,
       n_selected = 1,
       random_state = Seed 42,
       training = Some demo_training \<rparr>"

section \<open>Lemmas\<close>

subsection \<open>What the constructor sets\<close>

lemma LSCP_init_fields:
  assumes "LSCP_init L estimators n_iter region_size max_features bins rs = Inr (self, warnings)"
  shows "local_region_iterations self = 20" and "local_region_threshold self = 10"
    and "n_iterations self = n_iter" and "local_region_min self = 30"
    and "local_region_max self = 100" and "n_selected self = 1"
    and "local_min_features self = 1 / 2" and "n_clf self = length estimators"
    and "random_state self = rs" and "local_region_size self = region_size"
  using assms
  by (auto simp: LSCP_init_def Let_def py_int_def split: if_splits option.splits)

lemma clamp_region_size_eq:
  "clamp_region_size self =
     self\<lparr>local_region_size :=
            max (min (local_region_size self) (local_region_min self)) (local_region_max self)\<rparr>"
  by (simp add: clamp_region_size_def Let_def)

subsection \<open>The frame of the local-region passes\<close>

lemma same_kind_refl: "same_kind r r"
  by (cases r) auto

lemma same_kind_advance: "same_kind r (advance r rs)"
  by (cases r) auto

lemma same_kind_trans: "same_kind a b \<Longrightarrow> same_kind b c \<Longrightarrow> same_kind a c"
  by (cases a; cases b; cases c) auto

lemma only_generator_advanced_refl: "only_generator_advanced self self"
  by (simp add: only_generator_advanced_def same_kind_refl)

lemma only_generator_advanced_trans:
  assumes "only_generator_advanced a b" and "only_generator_advanced b c"
  shows "only_generator_advanced a c"
proof -
  have b: "b = a\<lparr>random_state := random_state b\<rparr>"
    and c: "c = b\<lparr>random_state := random_state c\<rparr>"
    using assms by (simp_all add: only_generator_advanced_def)
  have "c = a\<lparr>random_state := random_state c\<rparr>"
    by (subst c, subst b) simp
  then show ?thesis
    using assms same_kind_trans unfolding only_generator_advanced_def by blast
qed

lemma region_pass_state:
  "snd (region_pass L tr X grid self)
   = self\<lparr>random_state := advance (random_state self) (snd (draw_features L self tr))\<rparr>"
  by (auto simp: region_pass_def Let_def extend_grid_def split: prod.splits sum.splits)

lemma region_pass_frame:
  "only_generator_advanced self (snd (region_pass L tr X grid self))"
  by (simp add: region_pass_state only_generator_advanced_def same_kind_advance)

lemma region_loop_frame:
  "only_generator_advanced self (snd (region_loop L tr X n grid self))"
proof (induction n arbitrary: grid self)
  case 0
  then show ?case by (simp add: only_generator_advanced_refl)
next
  case (Suc n)
  obtain res self' where p: "region_pass L tr X grid self = (res, self')"
    by (cases "region_pass L tr X grid self")
  have f: "only_generator_advanced self self'"
    using region_pass_frame [of self L tr X grid] p by simp
  show ?case
  proof (cases res)
    case (Inl e)
    then show ?thesis using p f by simp
  next
    case (Inr grid')
    then show ?thesis
      using p only_generator_advanced_trans [OF f Suc.IH [of self' grid']] by simp
  qed
qed

lemma get_local_region_frame:
  "only_generator_advanced self (snd (get_local_region L self tr X))"
  using region_loop_frame [of self L tr X "nat (local_region_iterations self)"
          "replicate (length X) []"]
  by (auto simp: get_local_region_def split: prod.splits sum.splits)

lemma check_array_Inr: "check_array X = Inr X' \<Longrightarrow> X' = X"
  by (auto simp: check_array_def split: if_splits)

lemma decision_function_state:
  "snd (decision_function L self X) =
     (if validated self X
      then snd (get_local_region L (clamp_region_size self) (the (training self))
                  (standardizer L X))
      else self)"
  by (auto simp: decision_function_def validated_def Let_def check_array_Inr
           split: option.splits sum.splits prod.splits dest: check_array_Inr)

lemma decision_function_only_generator:
  "only_generator_advanced (if validated self X then clamp_region_size self else self)
     (snd (decision_function L self X))"
  by (simp add: decision_function_state get_local_region_frame only_generator_advanced_refl)

subsection \<open>Counting a row repeated in every pass\<close>

lemma counter_add_fresh:
  "x \<notin> fst ` set acc \<Longrightarrow> counter_add x acc = acc @ [(x, 1)]"
  by (induction acc) auto

lemma counter_add_present:
  "x \<notin> fst ` set pre \<Longrightarrow> counter_add x (pre @ (x, c) # post) = pre @ (x, Suc c) # post"
  by (induction pre) auto

lemma Counter_append:
  "Counter (xs @ ys) = foldl (\<lambda>acc x. counter_add x acc) (Counter xs) ys"
  by (simp add: Counter_def)

lemma counter_first_round:
  "distinct r \<Longrightarrow> set r \<inter> fst ` set acc = {} \<Longrightarrow>
   foldl (\<lambda>acc x. counter_add x acc) acc r = acc @ map (\<lambda>x. (x, 1)) r"
proof (induction r arbitrary: acc)
  case Nil
  then show ?case by simp
next
  case (Cons a r)
  have "counter_add a acc = acc @ [(a, 1)]"
    using Cons.prems by (intro counter_add_fresh) auto
  moreover have "set r \<inter> fst ` set (acc @ [(a, 1)]) = {}"
    using Cons.prems by auto
  ultimately show ?case
    using Cons.IH [of "acc @ [(a, 1)]"] Cons.prems by simp
qed

lemma counter_next_round:
  "distinct (pre @ r) \<Longrightarrow>
   foldl (\<lambda>acc x. counter_add x acc)
     (map (\<lambda>x. (x, Suc c)) pre @ map (\<lambda>x. (x, c)) r) r
   = map (\<lambda>x. (x, Suc c)) (pre @ r)"
proof (induction r arbitrary: pre)
  case Nil
  then show ?case by simp
next
  case (Cons a r)
  have fresh: "a \<notin> fst ` set (map (\<lambda>x. (x, Suc c)) pre)"
    using Cons.prems by (auto simp: image_iff)
  have step: "counter_add a (map (\<lambda>x. (x, Suc c)) pre @ (a, c) # map (\<lambda>x. (x, c)) r)
              = map (\<lambda>x. (x, Suc c)) pre @ (a, Suc c) # map (\<lambda>x. (x, c)) r"
    by (rule counter_add_present [OF fresh])
  have "distinct ((pre @ [a]) @ r)"
    using Cons.prems by simp
  from Cons.IH [OF this] show ?case
    using step by simp
qed

lemma Counter_replicate:
  assumes "distinct r"
  shows "Counter (concat (replicate (Suc n) r)) = map (\<lambda>x. (x, Suc n)) r"
proof (induction n)
  case 0
  show ?case
    using counter_first_round [OF assms, of "[]"] by (simp add: Counter_def)
next
  case (Suc n)
  have "concat (replicate (Suc (Suc n)) r) = concat (replicate (Suc n) r) @ r"
    by (metis concat.simps(2) concat_append concat.simps(1) append_Nil2
          replicate_append_same replicate_Suc)
  then have "Counter (concat (replicate (Suc (Suc n)) r))
             = foldl (\<lambda>acc x. counter_add x acc) (map (\<lambda>x. (x, Suc n)) r) r"
    using Suc by (simp only: Counter_append)
  also have "\<dots> = map (\<lambda>x. (x, Suc (Suc n))) r"
    using counter_next_round [of "[]" r "Suc n"] assms by simp
  finally show ?case .
qed

lemma consensus_replicate:
  assumes "distinct r" and "threshold < int n" and "0 < n"
  shows "consensus threshold (concat (replicate n r)) = r"
proof -
  obtain k where n: "n = Suc k" using assms(3) by (cases n) auto
  have "filter (\<lambda>(item, count). threshold < int count) (map (\<lambda>x. (x, n)) r)
        = map (\<lambda>x. (x, n)) r"
    using assms(2) by (induction r) auto
  then show ?thesis
    unfolding consensus_def n Counter_replicate [OF assms(1)]
    by (simp add: comp_def)
qed

subsection \<open>The passes under an integer seed\<close>

lemma region_pass_seed:
  assumes "random_state self = Seed s"
    and "draw_features L self tr = (Inr features, rs)"
    and "query_with L tr X (local_region_size self) features = Inr ind_arr"
    and "length grid \<le> length ind_arr"
  shows "region_pass L tr X grid self = (Inr (map (\<lambda>(g, r). g @ r) (zip grid ind_arr)), self)"
proof -
  have "self\<lparr>random_state := Seed s\<rparr> = self"
    using assms(1) by (metis lscp.surjective lscp.update_convs(13))
  then show ?thesis
    using assms by (simp add: region_pass_def extend_grid_def Let_def)
qed

lemma region_loop_seed:
  assumes "random_state self = Seed s"
    and "draw_features L self tr = (Inr features, rs)"
    and "query_with L tr X (local_region_size self) features = Inr ind_arr"
    and "length grid \<le> length ind_arr"
  shows "region_loop L tr X n grid self
         = (Inr (map (\<lambda>(g, r). g @ concat (replicate n r)) (zip grid ind_arr)), self)"
  using assms(4)
proof (induction n arbitrary: grid)
  case 0
  have "map (\<lambda>(g, r). g @ concat (replicate 0 r)) (zip grid ind_arr) = grid"
    by (rule nth_equalityI) (use 0 in auto)
  then show ?case by simp
next
  case (Suc n)
  let ?g = "map (\<lambda>(g, r). g @ r) (zip grid ind_arr)"
  have pass: "region_pass L tr X grid self = (Inr ?g, self)"
    by (rule region_pass_seed [OF assms(1-3) Suc.prems])
  have len: "length ?g \<le> length ind_arr" using Suc.prems by simp
  have "map (\<lambda>(g, r). g @ concat (replicate n r)) (zip ?g ind_arr)
        = map (\<lambda>(g, r). g @ concat (replicate (Suc n) r)) (zip grid ind_arr)"
    by (rule nth_equalityI) (use Suc.prems in auto)
  then show ?case
    using pass Suc.IH [OF len] by simp
qed

lemma region_loop_seed_start:
  assumes "random_state self = Seed s"
    and "draw_features L self tr = (Inr features, rs)"
    and "query_with L tr X (local_region_size self) features = Inr ind_arr"
    and "length ind_arr = length X"
  shows "region_loop L tr X n (replicate (length X) []) self
         = (Inr (map (\<lambda>r. concat (replicate n r)) ind_arr), self)"
proof -
  have "map (\<lambda>(g, r). g @ concat (replicate n r)) (zip (replicate (length X) []) ind_arr)
        = map (\<lambda>r. concat (replicate n r)) ind_arr"
    by (rule nth_equalityI) (use assms(4) in auto)
  then show ?thesis
    using region_loop_seed [OF assms(1-3), of "replicate (length X) []" n] assms(4) by simp
qed

lemma get_local_region_seed:
  assumes "random_state self = Seed s"
    and "draw_features L self tr = (Inr features, rs)"
    and "query_with L tr X (local_region_size self) features = Inr ind_arr"
    and "length ind_arr = length X"
    and "list_all distinct ind_arr"
    and "0 < local_region_iterations self"
    and "local_region_threshold self < local_region_iterations self"
  shows "get_local_region L self tr X = (Inr ind_arr, self)"
proof -
  let ?n = "nat (local_region_iterations self)"
  have "map (consensus (local_region_threshold self))
          (map (\<lambda>r. concat (replicate ?n r)) ind_arr) = ind_arr"
  proof (rule nth_equalityI)
    show "length (map (consensus (local_region_threshold self))
            (map (\<lambda>r. concat (replicate ?n r)) ind_arr)) = length ind_arr"
      by simp
  next
    fix j
    assume "j < length (map (consensus (local_region_threshold self))
                  (map (\<lambda>r. concat (replicate ?n r)) ind_arr))"
    then have j: "j < length ind_arr" by simp
    then have "distinct (ind_arr ! j)"
      using assms(5) by (simp add: list_all_length)
    then have "consensus (local_region_threshold self) (concat (replicate ?n (ind_arr ! j)))
               = ind_arr ! j"
      using assms(6,7) by (intro consensus_replicate) auto
    then show "map (consensus (local_region_threshold self))
                 (map (\<lambda>r. concat (replicate ?n r)) ind_arr) ! j = ind_arr ! j"
      using j by simp
  qed
  then show ?thesis
    using region_loop_seed_start [OF assms(1-4), of ?n]
    by (simp add: get_local_region_def)
qed

subsection \<open>The passes, whatever the generator\<close>

lemma region_pass_Inr:
  assumes "region_pass L tr X grid self = (Inr grid', self')"
  shows "\<exists>features ind_arr.
           query_with L tr X (local_region_size self) features = Inr ind_arr \<and>
           length grid \<le> length ind_arr \<and>
           grid' = map (\<lambda>(g, r). g @ r) (zip grid ind_arr) \<and>
           local_region_size self' = local_region_size self"
  using assms
  by (fastforce simp: region_pass_def extend_grid_def Let_def not_less
           split: prod.splits sum.splits if_splits)

lemma region_loop_passes:
  assumes "region_loop L tr X n grid self = (Inr grid', self')"
  shows "\<exists>passes. length passes = n \<and>
           list_all (\<lambda>(features, ind_arr).
                       query_with L tr X (local_region_size self) features = Inr ind_arr \<and>
                       length grid \<le> length ind_arr) passes \<and>
           grid' = map (\<lambda>j. grid ! j @ concat (map (\<lambda>(features, ind_arr). ind_arr ! j) passes))
                     [0..<length grid]"
  using assms
proof (induction n arbitrary: grid self)
  case 0
  then have "grid' = grid" by simp
  then have "grid' = map (\<lambda>j. grid ! j @ concat (map (\<lambda>(features, ind_arr). ind_arr ! j) []))
                       [0..<length grid]"
    by (simp add: map_nth)
  then show ?case by (intro exI [of _ "[]"]) simp
next
  case (Suc n)
  obtain res s1 where p: "region_pass L tr X grid self = (res, s1)"
    by (cases "region_pass L tr X grid self")
  with Suc.prems obtain g1 where res: "res = Inr g1"
    by (cases res) auto
  from p res obtain f a where q: "query_with L tr X (local_region_size self) f = Inr a"
      and a: "length grid \<le> length a"
      and g1: "g1 = map (\<lambda>(g, r). g @ r) (zip grid a)"
      and k: "local_region_size s1 = local_region_size self"
    using region_pass_Inr by blast
  have loop: "region_loop L tr X n g1 s1 = (Inr grid', self')"
    using Suc.prems p res by simp
  from Suc.IH [OF loop] obtain passes where n: "length passes = n"
      and all: "list_all (\<lambda>(features, ind_arr).
                  query_with L tr X (local_region_size s1) features = Inr ind_arr \<and>
                  length g1 \<le> length ind_arr) passes"
      and g': "grid' = map (\<lambda>j. g1 ! j @ concat (map (\<lambda>(features, ind_arr). ind_arr ! j) passes))
                         [0..<length g1]"
    by blast
  have len: "length g1 = length grid" using a g1 by simp
  have "grid' = map (\<lambda>j. grid ! j @ concat (map (\<lambda>(features, ind_arr). ind_arr ! j)
                                              ((f, a) # passes))) [0..<length grid]"
    unfolding g' len using a by (auto simp: g1)
  moreover have "list_all (\<lambda>(features, ind_arr).
                    query_with L tr X (local_region_size self) features = Inr ind_arr \<and>
                    length grid \<le> length ind_arr) ((f, a) # passes)"
    using all a q len k by simp
  ultimately show ?case
    using n by (intro exI [of _ "(f, a) # passes"]) simp
qed

lemma get_local_region_passes:
  assumes "get_local_region L self tr X = (Inr regions, self')"
  shows "\<exists>passes. length passes = nat (local_region_iterations self) \<and>
           list_all (\<lambda>(features, ind_arr).
                       query_with L tr X (local_region_size self) features = Inr ind_arr \<and>
                       length X \<le> length ind_arr) passes \<and>
           regions = map (\<lambda>j. consensus (local_region_threshold self)
                                 (concat (map (\<lambda>(features, ind_arr). ind_arr ! j) passes)))
                       [0..<length X]"
proof -
  let ?n = "nat (local_region_iterations self)"
  obtain res s1 where l: "region_loop L tr X ?n (replicate (length X) []) self = (res, s1)"
    by (cases "region_loop L tr X ?n (replicate (length X) []) self")
  with assms obtain grid where res: "res = Inr grid"
    by (cases res) (auto simp: get_local_region_def)
  have thr: "local_region_threshold s1 = local_region_threshold self"
    using region_loop_frame [of self L tr X ?n "replicate (length X) []"] l
    by (metis lscp.select_convs(10) lscp.surjective lscp.update_convs(13)
          only_generator_advanced_def snd_conv)
  have regions: "regions = map (consensus (local_region_threshold self)) grid"
    using assms l res thr by (simp add: get_local_region_def)
  from region_loop_passes [OF l [unfolded res]] obtain passes
    where n: "length passes = ?n"
      and all: "list_all (\<lambda>(features, ind_arr).
                  query_with L tr X (local_region_size self) features = Inr ind_arr \<and>
                  length (replicate (length X) ([]::nat list)) \<le> length ind_arr) passes"
      and g: "grid = map (\<lambda>j. replicate (length X) [] ! j
                                @ concat (map (\<lambda>(features, ind_arr). ind_arr ! j) passes))
                       [0..<length (replicate (length X) ([]::nat list))]"
    by blast
  have "grid = map (\<lambda>j. concat (map (\<lambda>(features, ind_arr). ind_arr ! j) passes)) [0..<length X]"
    using g by simp
  then have "regions = map (\<lambda>j. consensus (local_region_threshold self)
                                 (concat (map (\<lambda>(features, ind_arr). ind_arr ! j) passes)))
                       [0..<length X]"
    using regions by simp
  then show ?thesis
    using n all by (intro exI [of _ passes]) simp
qed

lemma only_generator_advanced_fields:
  assumes "only_generator_advanced a b"
  shows "local_region_size b = local_region_size a" and "training b = training a"
    and "local_region_threshold b = local_region_threshold a"
    and "b = a\<lparr>random_state := random_state b\<rparr>"
    and "same_kind (random_state a) (random_state b)"
proof -
  have b: "b = a\<lparr>random_state := random_state b\<rparr>"
    using assms by (simp add: only_generator_advanced_def)
  show "b = a\<lparr>random_state := random_state b\<rparr>" by (rule b)
  show "same_kind (random_state a) (random_state b)"
    using assms by (simp add: only_generator_advanced_def)
  show "local_region_size b = local_region_size a" by (subst b) simp
  show "training b = training a" by (subst b) simp
  show "local_region_threshold b = local_region_threshold a" by (subst b) simp
qed

subsection \<open>The demonstration objects\<close>

lemma demo_init:
  "LSCP_init demo_library [det_sum, det_first] n_iter k 1 10 (Seed 42)
   = Inr (demo_lscp\<lparr>n_iterations := n_iter, local_region_size := k, training := None\<rparr>,
          [n_bins_warning])"
  by (simp add: LSCP_init_def demo_lscp_def demo_library_def Let_def py_int_def)

lemma demo_fit:
  "(demo_lscp\<lparr>n_iterations := n_iter, local_region_size := k, training := None\<rparr>)
     \<lparr>training := Some demo_training\<rparr>
   = demo_lscp\<lparr>n_iterations := n_iter, local_region_size := k\<rparr>"
  by (simp add: demo_lscp_def)

lemma demo_validated:
  "validated (demo_lscp\<lparr>n_iterations := n_iter, local_region_size := k\<rparr>) [[1, 2], [4, 4]]"
  by (simp add: validated_def demo_lscp_def demo_training_def check_array_def shape1_def)

lemma demo_draw:
  "draw_features demo_library (demo_lscp\<lparr>n_iterations := n_iter, local_region_size := k\<rparr>)
     demo_training = (Inr [1], 44)"
  by (simp add: draw_features_def generate_bagging_indices_def generate_indices_def
        demo_library_def demo_lscp_def demo_training_def shape1_def py_int_def)

lemma demo_query:
  "query_with demo_library demo_training [[1, 2], [4, 4]] 2 [1] = Inr [[1, 2], [3, 2]]"
  by (simp add: query_with_def select_columns_def shape1_def demo_training_def
        demo_library_def sqdist_def)

subsection \<open>The size of the feature subset\<close>

lemma demo_randint_in_range: "randint_in_range demo_library"
proof -
  have "low + int rs mod (high - low) < high" if "low < high" for low high :: int and rs :: nat
    using that pos_mod_bound [of "high - low" "int rs"] by linarith
  then show ?thesis
    by (auto simp: randint_in_range_def demo_library_def split: if_splits)
qed

lemma demo_sample_has_size: "sample_has_size demo_library"
  by (auto simp: sample_has_size_def demo_library_def list_all_iff
           split: if_splits dest: in_set_takeD)

lemma draw_features_size:
  assumes "randint_in_range L" and "sample_has_size L"
    and "draw_features L self tr = (Inr features, rs)"
  shows "py_int (real (shape1 (X_train_norm tr)) * local_min_features self)
           \<le> int (length features)"
    and "length features < shape1 (X_train_norm tr)"
    and "distinct features" and "list_all (\<lambda>i. i < shape1 (X_train_norm tr)) features"
proof -
  let ?d = "shape1 (X_train_norm tr)"
  let ?lo = "py_int (real ?d * local_min_features self)"
  let ?g = "check_random_state L (random_state self)"
  from assms(3) obtain k rs1 where r: "randint L ?g ?lo (int ?d) = Inr (k, rs1)"
    and s: "sample_without_replacement L ?d k rs1 = Inr (features, rs)"
    by (auto simp: draw_features_def generate_bagging_indices_def generate_indices_def Let_def
             split: sum.splits prod.splits)
  have k: "?lo \<le> k" "k < int ?d"
    using assms(1) r unfolding randint_in_range_def by blast+
  have f: "int (length features) = k" "distinct features" "list_all (\<lambda>i. i < ?d) features"
    using assms(2) s unfolding sample_has_size_def by blast+
  show "?lo \<le> int (length features)" using k f by simp
  show "length features < ?d" using k f by simp
  show "distinct features" by (rule f(2))
  show "list_all (\<lambda>i. i < ?d) features" by (rule f(3))
qed

subsection \<open>NaN and the correlation\<close>

lemma finite_values_NaN: "NaN \<in> set a \<Longrightarrow> finite_values a = None"
proof (induction a)
  case Nil
  then show ?case by simp
next
  case (Cons v a)
  then show ?case by (cases v) auto
qed

lemma finite_values_replicate: "finite_values (replicate n (Fin c)) = Some (replicate n c)"
  by (induction n) auto

lemma np_histogram_NaN: "NaN \<in> set a \<Longrightarrow> np_histogram a bins = Inl ValueError"
  by (simp add: np_histogram_def finite_values_NaN)

lemma get_competent_detectors_NaN:
  "NaN \<in> set scores \<Longrightarrow> get_competent_detectors self scores = Inl ValueError"
  by (simp add: get_competent_detectors_def np_histogram_NaN)

lemma pearsonr_short: "length x < 2 \<Longrightarrow> pearsonr x y = NaN"
  by (simp add: pearsonr_def Let_def)

lemma deviations_constant:
  assumes "list_all (\<lambda>v. v = c) x"
  shows "sum_list (map (\<lambda>a. a * a) (map (\<lambda>v. v - sum_list x / real (length x)) x)) = 0"
proof (cases "x = []")
  case True
  then show ?thesis by simp
next
  case False
  have x: "x = replicate (length x) c"
    using assms replicate_length_same [of x c] by (simp add: list_all_iff)
  have "sum_list x = real (length x) * c"
    by (subst x) (simp add: sum_list_replicate)
  then have m: "sum_list x / real (length x) = c"
    using False by simp
  have "map (\<lambda>v. v - c) x = replicate (length x) 0"
    by (subst x) simp
  then show ?thesis
    unfolding m by (simp add: sum_list_replicate)
qed

lemma pearsonr_constant_x: "list_all (\<lambda>v. v = c) x \<Longrightarrow> pearsonr x y = NaN"
  using deviations_constant [of c x] by (simp add: pearsonr_def Let_def)

lemma pearsonr_constant_y: "list_all (\<lambda>v. v = c) y \<Longrightarrow> pearsonr x y = NaN"
  using deviations_constant [of c y] by (simp add: pearsonr_def Let_def)

lemma local_rows_length: "local_rows arr ind_k = Inr rows \<Longrightarrow> length rows = length ind_k"
  by (auto simp: local_rows_def split: if_splits)

lemma pearson_corr_scores_Inr:
  assumes "pearson_corr_scores self tr ind_k = Inr scores"
  shows "\<exists>truth local_scores.
           local_rows (training_pseudo_label tr) ind_k = Inr truth \<and>
           local_rows (train_scores_norm tr) ind_k = Inr local_scores \<and>
           scores = map (\<lambda>d. pearsonr truth (map (\<lambda>row. row ! d) local_scores))
                      [0..<n_clf self]"
  using assms by (auto simp: pearson_corr_scores_def split: sum.splits if_splits)

lemma pearson_corr_scores_degenerate:
  assumes "length ind_k < 2" and "pearson_corr_scores self tr ind_k = Inr scores"
  shows "scores = replicate (n_clf self) NaN"
proof -
  from pearson_corr_scores_Inr [OF assms(2)] obtain truth local_scores
    where t: "local_rows (training_pseudo_label tr) ind_k = Inr truth"
      and s: "scores = map (\<lambda>d. pearsonr truth (map (\<lambda>row. row ! d) local_scores))
                         [0..<n_clf self]"
    by blast
  have "length truth < 2"
    using local_rows_length [OF t] assms(1) by simp
  then have "scores = map (\<lambda>d. NaN) [0..<n_clf self]"
    unfolding s by (simp add: pearsonr_short)
  then show ?thesis by (simp add: map_replicate_const)
qed

lemma row_score_NaN:
  assumes "pearson_corr_scores self tr ind_k = Inr scores" and "NaN \<in> set scores"
  shows "row_score self tr test_scores_norm i ind_k = Inl ValueError"
  using assms by (simp add: row_score_def get_competent_detectors_NaN)

lemma score_rows_error:
  assumes "ind_k \<in> set ind_arr"
    and "\<And>i. \<exists>e. row_score self tr test_scores_norm i ind_k = Inl e"
  shows "\<exists>e. score_rows self tr test_scores_norm i ind_arr = Inl e"
  using assms(1)
proof (induction ind_arr arbitrary: i)
  case Nil
  then show ?case by simp
next
  case (Cons r rest)
  show ?case
  proof (cases "row_score self tr test_scores_norm i r")
    case (Inl e)
    then show ?thesis by simp
  next
    case (Inr v)
    with assms(2) [of i] have "r \<noteq> ind_k" by auto
    with Cons.prems have "ind_k \<in> set rest" by simp
    from Cons.IH [OF this, of "Suc i"] show ?thesis
      using Inr by auto
  qed
qed

subsection \<open>The histogram of equal scores\<close>

lemma linspace_edges_nth:
  "i \<le> n \<Longrightarrow> linspace_edges a b n ! i = a + real i * (b - a) / real n"
  unfolding linspace_edges_def
  using nth_map [of i "[0..<Suc n]" "\<lambda>i. a + real i * (b - a) / real n"] 
  by (simp del: upt_Suc)

lemma length_linspace_edges: "length (linspace_edges a b n) = Suc n"
  by (simp add: linspace_edges_def)

lemma np_histogram_equal:
  assumes "0 < n" and "1 \<le> bins"
  shows "np_histogram (replicate n (Fin c)) bins
         = Inr (map (\<lambda>b. if in_bin (linspace_edges (c - 1 / 2) (c + 1 / 2) (nat bins)) (nat bins) b c
                         then n else 0) [0..<nat bins],
                linspace_edges (c - 1 / 2) (c + 1 / 2) (nat bins))"
proof -
  have ne: "replicate n c \<noteq> []" using assms(1) by simp
  have s: "set (replicate n c) = {c}" using assms(1) by simp
  have f: "length (filter P (replicate n c)) = (if P c then n else 0)" for P
    by simp
  show ?thesis
    using assms(2) ne
    by (simp add: np_histogram_def finite_values_replicate s Let_def f in_bin_def
          del: replicate_eq_replicate)
qed

lemma middle_bin:
  assumes "0 < n"
  shows "in_bin (linspace_edges (c - 1 / 2) (c + 1 / 2) n) n (n div 2) c"
proof -
  let ?b = "n div 2"
  have b: "?b \<le> n" "Suc ?b \<le> n" using assms by auto
  have "2 * ?b \<le> n" and "n < 2 * Suc ?b"
    by auto
  then have "2 * real ?b \<le> real n" and "real n < 2 * real (Suc ?b)"
    by (metis of_nat_le_iff of_nat_mult of_nat_numeral, metis of_nat_less_iff of_nat_mult of_nat_numeral)
  then have lo: "real ?b / real n \<le> 1 / 2" and hi: "1 / 2 < real (Suc ?b) / real n"
    using assms by (simp_all add: field_simps)
  have e1: "linspace_edges (c - 1 / 2) (c + 1 / 2) n ! ?b = c - 1 / 2 + real ?b / real n"
    by (simp add: linspace_edges_nth [OF b(1)])
  have e2: "linspace_edges (c - 1 / 2) (c + 1 / 2) n ! Suc ?b
            = c - 1 / 2 + real (Suc ?b) / real n"
    by (simp add: linspace_edges_nth [OF b(2)])
  show ?thesis
    unfolding in_bin_def e1 e2 using lo hi by auto
qed

lemma sorted_key_last:
  assumes "sorted (map f l)" and "x \<in> set l"
  shows "f x \<le> f (last l)"
proof -
  from assms(2) obtain i where i: "i < length l" "l ! i = x"
    by (auto simp: in_set_conv_nth)
  then have ne: "l \<noteq> []" by auto
  have "map f l ! i \<le> map f l ! (length l - 1)"
    using assms(1) i(1) by (intro sorted_nth_mono) auto
  then show ?thesis
    using i ne by (simp add: last_conv_nth)
qed

lemma argmaxn_one:
  assumes "vs \<noteq> []"
  shows "\<exists>b. argmaxn vs 1 = Inr [b] \<and> b < length vs \<and> (\<forall>i < length vs. vs ! i \<le> vs ! b)"
proof -
  let ?l = "sort_key (\<lambda>i. vs ! i) [0..<length vs]"
  have ne: "?l \<noteq> []"
    using assms by (metis length_greater_0_conv length_sort length_upt diff_zero)
  have set: "set ?l = {0..<length vs}" by simp
  have "take 1 (rev ?l) = [last ?l]"
    using ne by (cases "rev ?l") (auto simp: last_rev [symmetric] hd_rev simp del: set_sort)
  then have a: "argmaxn vs 1 = Inr [last ?l]"
    using assms by (simp add: argmaxn_def Suc_leI)
  have "last ?l \<in> set ?l" using ne by (rule last_in_set)
  then have b: "last ?l < length vs" by simp
  have "\<forall>i < length vs. vs ! i \<le> vs ! last ?l"
  proof (intro allI impI)
    fix i assume "i < length vs"
    then have "i \<in> set ?l" by simp
    then show "vs ! i \<le> vs ! last ?l"
      by (rule sorted_key_last [OF sorted_sort_key, where f = "\<lambda>i. vs ! i"])
  qed
  then show ?thesis using a b by blast
qed

lemma np_where_between_equal:
  assumes "lo \<le> c" and "c \<le> hi"
  shows "np_where_between (replicate n (Fin c)) lo hi = [0..<n]"
proof -
  have "filter (\<lambda>d. case replicate n (Fin c) ! d of Fin x \<Rightarrow> lo \<le> x \<and> x \<le> hi | NaN \<Rightarrow> False)
          [0..<n] = [0..<n]"
    using assms by (intro filter_True) auto
  then show ?thesis by (simp add: np_where_between_def)
qed

lemma get_competent_detectors_equal:
  assumes "0 < n" and "1 \<le> n_bins self" and "n_selected self = 1"
  shows "get_competent_detectors self (replicate n (Fin c)) = Inr [0..<n]"
proof -
  let ?nb = "nat (n_bins self)"
  let ?edges = "linspace_edges (c - 1 / 2) (c + 1 / 2) ?nb"
  let ?hist = "map (\<lambda>b. if in_bin ?edges ?nb b c then n else 0) [0..<?nb]"
  have nb: "0 < ?nb" using assms(2) by simp
  have h: "np_histogram (replicate n (Fin c)) (n_bins self) = Inr (?hist, ?edges)"
    by (rule np_histogram_equal [OF assms(1,2)])
  have "?hist \<noteq> []" using nb by simp
  from argmaxn_one [OF this] obtain b where a: "argmaxn ?hist 1 = Inr [b]"
    and b: "b < length ?hist" and mx: "\<forall>i < length ?hist. ?hist ! i \<le> ?hist ! b"
    by blast
  have b': "b < ?nb" using b by simp
  have m: "?nb div 2 < ?nb" using nb by simp
  have "?hist ! (?nb div 2) = n"
    using middle_bin [OF nb, of c] m by simp
  moreover have "?hist ! (?nb div 2) \<le> ?hist ! b"
    using mx m by simp
  ultimately have "n \<le> ?hist ! b" by simp
  then have "in_bin ?edges ?nb b c"
    using assms(1) b' by (simp split: if_splits)
  then have lo: "?edges ! b \<le> c" and hi: "c \<le> ?edges ! Suc b"
    by (auto simp: in_bin_def split: if_splits)
  have "collect_candidates (replicate n (Fin c)) ?edges [b] = Inr [0..<n]"
    using b' by (simp add: length_linspace_edges np_where_between_equal [OF lo hi])
  then show ?thesis
    using h a assms(3) by (simp add: get_competent_detectors_def)
qed

subsection \<open>What \<^verbatim>\<open>decision_function\<close> returns\<close>

lemma decision_function_scores:
  assumes "training self = Some tr" and "validated self X"
    and "get_local_region L (clamp_region_size self) tr (standardizer L X) = (Inr ind_arr, self')"
    and "test_scores_of self' (standardizer L X) = Inr test_scores"
  shows "fst (decision_function L self X)
         = score_rows self' tr (standardizer L test_scores) 0 ind_arr"
  using assms
  by (auto simp: decision_function_def validated_def Let_def
           split: option.splits sum.splits prod.splits dest: check_array_Inr)

subsection \<open>The demonstration objects, scored\<close>

lemma demo_corr_equal: "pearson_corr_scores demo_lscp demo_training [0, 1] = Inr [Fin 1, Fin 1]"
  by (simp add: pearson_corr_scores_def local_rows_def demo_lscp_def demo_training_def
        shape1_def pearsonr_def Let_def real_sqrt_divide numeral_2_eq_2)

lemma demo_corr_flat: "pearson_corr_scores demo_lscp demo_training [0, 3] = Inr [NaN, Fin 1]"
  by (simp add: pearson_corr_scores_def local_rows_def demo_lscp_def demo_training_def
        shape1_def pearsonr_def Let_def real_sqrt_divide numeral_2_eq_2)

lemma demo_corr_single: "pearson_corr_scores demo_lscp demo_training [2] = Inr [NaN, NaN]"
  by (simp add: pearson_corr_scores_def local_rows_def demo_lscp_def demo_training_def
        shape1_def pearsonr_def Let_def numeral_2_eq_2)

lemma demo_select_equal: "get_competent_detectors demo_lscp [Fin 1, Fin 1] = Inr [0, 1]"
  using get_competent_detectors_equal [of 2 demo_lscp 1]
  by (simp add: demo_lscp_def numeral_2_eq_2)

section \<open>The constructor\<close>

text \<open>
  C10. Constructing the ensemble with one detector or none fails: the assertion of line
  103 raises \<open>AssertionError\<close>, the code's form of the spec's \<open>InvalidArgument\<close>. With two
  detectors or more that all pass sklearn's \<^verbatim>\<open>check_estimator\<close>, the constructor
  returns the object, which holds the detectors and their number.
\<close>

theorem LSCP_init_detector_count:
  "(length estimators \<le> 1 \<longrightarrow>
      LSCP_init L estimators n_iter region_size max_features bins rs = Inl AssertionError) \<and>
   (2 \<le> length estimators \<and> check_estimators L estimators = None \<longrightarrow>
      (\<exists>self warnings.
         LSCP_init L estimators n_iter region_size max_features bins rs = Inr (self, warnings)
         \<and> estimator_list self = estimators \<and> n_clf self = length estimators))"
  by (auto simp: LSCP_init_def Let_def)

theorem LSCP_init_detector_count_witness:
  "LSCP_init demo_library [det_sum] 20 30 1 10 (Seed 42) = Inl AssertionError \<and>
   LSCP_init demo_library [] 20 30 1 10 (Seed 42) = Inl AssertionError \<and>
   (\<exists>self warnings.
      LSCP_init demo_library [det_sum, det_first] 20 30 1 10 (Seed 42) = Inr (self, warnings)
      \<and> estimator_list self = [det_sum, det_first] \<and> n_clf self = length [det_sum, det_first])"
  using LSCP_init_detector_count [of "[det_sum]" demo_library 20 30 1 10 "Seed 42"]
        LSCP_init_detector_count [of "[]" demo_library 20 30 1 10 "Seed 42"]
        LSCP_init_detector_count [of "[det_sum, det_first]" demo_library 20 30 1 10 "Seed 42"]
  by (simp add: demo_library_def)

text \<open>
  C9. With \<open>n_bins\<close> configured larger than the number of detectors the constructor does
  not fail: it returns the object with the one warning of line 106 and \<open>n_bins\<close> set to
  \<open>n_clf\<close>. With \<open>n_bins\<close> strictly smaller, it returns the object with no warning
  and \<open>n_bins\<close> as configured. (The detectors number two or more and pass
  \<^verbatim>\<open>check_estimator\<close>, as any successful construction requires.)
\<close>

theorem LSCP_init_n_bins:
  assumes "1 < length estimators" and "check_estimators L estimators = None"
  shows "(int (length estimators) < bins \<longrightarrow>
           (\<exists>self. LSCP_init L estimators n_iter region_size max_features bins rs
                     = Inr (self, [n_bins_warning])
                  \<and> n_bins self = int (n_clf self) \<and> n_clf self = length estimators)) \<and>
         (bins < int (length estimators) \<longrightarrow>
           (\<exists>self. LSCP_init L estimators n_iter region_size max_features bins rs
                     = Inr (self, [])
                  \<and> n_bins self = bins \<and> n_clf self = length estimators))"
  using assms by (auto simp: LSCP_init_def Let_def)

theorem LSCP_init_n_bins_witness:
  "(\<exists>self. LSCP_init demo_library [det_sum, det_first] 20 30 1 10 (Seed 42)
             = Inr (self, [n_bins_warning]) \<and> n_bins self = 2) \<and>
   (\<exists>self. LSCP_init demo_library [det_sum, det_first, det_sum] 20 30 1 2 (Seed 42)
             = Inr (self, []) \<and> n_bins self = 2)"
proof -
  have c: "check_estimators demo_library [det_sum, det_first] = None"
          "check_estimators demo_library [det_sum, det_first, det_sum] = None"
    by (simp_all add: demo_library_def)
  show ?thesis
    using LSCP_init_n_bins [OF _ c(1), of 10 20 30 1 "Seed 42"]
          LSCP_init_n_bins [OF _ c(2), of 2 20 30 1 "Seed 42"]
    by auto
qed

section \<open>The region size of \<^verbatim>\<open>decision_function\<close>\<close>

text \<open>
  C1. The claim: the effective local region size is the configured one clamped into
  \<open>[30, 100]\<close>, so a configured 50 is used as 50. The code (lines 149 and 150) takes
  the minimum with \<open>local_region_min\<close> and then the maximum with \<open>local_region_max\<close>:
  for an object the constructor built and \<^verbatim>\<open>fit\<close> trained, whatever size was
  configured, the size in force after the two assignments is 100, and it is the size
  the object holds when \<^verbatim>\<open>decision_function\<close> is over. The witness is the
  configured size 50.
\<close>

theorem effective_region_size_is_max:
  assumes "LSCP_init L estimators n_iter region_size max_features bins rs = Inr (self0, warnings)"
    and "self = self0\<lparr>training := Some tr\<rparr>"
    and "validated self X"
  shows "local_region_size self = region_size \<and>
         local_region_size (clamp_region_size self) = 100 \<and>
         local_region_size (snd (decision_function L self X)) = 100"
proof -
  have f: "local_region_min self = 30" "local_region_max self = 100"
    "local_region_size self = region_size"
    using LSCP_init_fields [OF assms(1)] assms(2) by simp_all
  then have c: "local_region_size (clamp_region_size self) = 100"
    by (simp add: clamp_region_size_eq)
  have "local_region_size (snd (decision_function L self X))
        = local_region_size (clamp_region_size self)"
    using only_generator_advanced_fields(1) [OF decision_function_only_generator [of self X L]]
      assms(3) by simp
  then show ?thesis using c f by simp
qed

theorem effective_region_size_is_max_witness:
  "local_region_size (demo_lscp\<lparr>n_iterations := 20, local_region_size := 50\<rparr>) = 50 \<and>
   local_region_size (clamp_region_size
      (demo_lscp\<lparr>n_iterations := 20, local_region_size := 50\<rparr>)) = 100 \<and>
   local_region_size (snd (decision_function demo_library
      (demo_lscp\<lparr>n_iterations := 20, local_region_size := 50\<rparr>) [[1, 2], [4, 4]])) = 100"
  using effective_region_size_is_max [OF demo_init demo_fit [symmetric] demo_validated]
  by simp

section \<open>The local region\<close>

text \<open>
  C3. With an integer seed in \<open>random_state\<close>, every pass builds its generator from
  that seed, leaves the object as it was, and so draws the same feature subset and gets
  the same query answer \<open>ind_arr\<close>. When the answer has one row of distinct indices for
  every test row and the threshold is below the (positive) number of passes, as 10 is
  below 20: the accumulated row of a test row is its answer row repeated once per pass,
  every index of it is counted as often as there are passes, every index passes the
  consensus filter, and \<^verbatim>\<open>_get_local_region\<close> returns exactly \<open>ind_arr\<close>.
\<close>

theorem seeded_region_is_one_knn_set:
  assumes "random_state self = Seed s"
    and "draw_features L self tr = (Inr features, rs)"
    and "query_with L tr X (local_region_size self) features = Inr ind_arr"
    and "length ind_arr = length X"
    and "list_all distinct ind_arr"
    and "0 < local_region_iterations self"
    and "local_region_threshold self < local_region_iterations self"
  shows "check_random_state L (random_state self) = RandomState L s \<and>
         snd (region_pass L tr X grid self) = self \<and>
         region_loop L tr X (nat (local_region_iterations self)) (replicate (length X) []) self
           = (Inr (map (\<lambda>r. concat (replicate (nat (local_region_iterations self)) r)) ind_arr),
              self) \<and>
         list_all (\<lambda>r. Counter (concat (replicate (nat (local_region_iterations self)) r))
                          = map (\<lambda>i. (i, nat (local_region_iterations self))) r \<and>
                        consensus (local_region_threshold self)
                          (concat (replicate (nat (local_region_iterations self)) r)) = r)
           ind_arr \<and>
         get_local_region L self tr X = (Inr ind_arr, self)"
proof -
  let ?n = "nat (local_region_iterations self)"
  obtain k where n: "?n = Suc k"
    using assms(6) by (cases ?n) auto
  have "self\<lparr>random_state := Seed s\<rparr> = self"
    using assms(1) by (metis lscp.surjective lscp.update_convs(13))
  then have pass: "snd (region_pass L tr X grid self) = self"
    using assms(1) by (simp add: region_pass_state)
  have counts: "list_all (\<lambda>r. Counter (concat (replicate ?n r)) = map (\<lambda>i. (i, ?n)) r \<and>
                  consensus (local_region_threshold self) (concat (replicate ?n r)) = r) ind_arr"
    unfolding list_all_iff
  proof
    fix r assume "r \<in> set ind_arr"
    then have d: "distinct r" using assms(5) by (simp add: list_all_iff)
    have "consensus (local_region_threshold self) (concat (replicate ?n r)) = r"
      using assms(6,7) by (intro consensus_replicate [OF d]) auto
    moreover have "Counter (concat (replicate ?n r)) = map (\<lambda>i. (i, ?n)) r"
      unfolding n by (rule Counter_replicate [OF d])
    ultimately show "Counter (concat (replicate ?n r)) = map (\<lambda>i. (i, ?n)) r \<and>
        consensus (local_region_threshold self) (concat (replicate ?n r)) = r"
      by simp
  qed
  show ?thesis
    using assms(1) pass counts region_loop_seed_start [OF assms(1-4), of ?n]
      get_local_region_seed [OF assms]
    by simp
qed

theorem seeded_region_is_one_knn_set_witness:
  "region_loop demo_library demo_training [[1, 2], [4, 4]] 20 [[], []]
     (demo_lscp\<lparr>n_iterations := 20, local_region_size := 2\<rparr>)
     = (Inr [concat (replicate 20 [1, 2]), concat (replicate 20 [3, 2])],
        demo_lscp\<lparr>n_iterations := 20, local_region_size := 2\<rparr>) \<and>
   Counter (concat (replicate 20 [1, 2 :: nat])) = [(1, 20), (2, 20)] \<and>
   Counter (concat (replicate 20 [3, 2 :: nat])) = [(3, 20), (2, 20)] \<and>
   get_local_region demo_library (demo_lscp\<lparr>n_iterations := 20, local_region_size := 2\<rparr>)
     demo_training [[1, 2], [4, 4]]
     = (Inr [[1, 2], [3, 2]], demo_lscp\<lparr>n_iterations := 20, local_region_size := 2\<rparr>)"
proof -
  let ?self = "demo_lscp\<lparr>n_iterations := 20, local_region_size := 2\<rparr>"
  have s: "random_state ?self = Seed 42" "local_region_size ?self = 2"
    "local_region_iterations ?self = 20" "local_region_threshold ?self = 10"
    by (simp_all add: demo_lscp_def)
  have q: "query_with demo_library demo_training [[1, 2], [4, 4]] (local_region_size ?self) [1]
           = Inr [[1, 2], [3, 2]]"
    using demo_query s(2) by simp
  have l: "length [[1, 2], [3, 2 :: nat]] = length [[1, 2], [4, 4 :: real]]" by simp
  have d: "list_all distinct [[1, 2], [3, 2 :: nat]]" by simp
  have i: "0 < local_region_iterations ?self"
    "local_region_threshold ?self < local_region_iterations ?self"
    using s by simp_all
  show ?thesis
    using seeded_region_is_one_knn_set [OF s(1) demo_draw q l d i] s(3)
    by simp
qed

text \<open>
  C4, as amended. Whatever \<open>n_iterations\<close> is configured, it is stored and not read
  again: the object has \<open>local_region_iterations = 20\<close> and
  \<open>local_region_threshold = int(20 / 2) = 10\<close>, also after \<^verbatim>\<open>fit\<close> and after the
  region size has been set to any \<open>k\<close>. A local-region discovery that returns has made
  exactly 20 passes, each with a feature subset and the answer of the query for it, and
  the region of test row \<open>j\<close> holds the indices that occur more than 10 times in the rows
  \<open>j\<close> of the 20 answers.
\<close>

theorem region_passes_fixed:
  assumes "LSCP_init L estimators n_iter region_size max_features bins rs = Inr (self0, warnings)"
    and "self = self0\<lparr>training := Some tr, local_region_size := k\<rparr>"
  shows "n_iterations self = n_iter \<and>
         local_region_iterations self = 20 \<and>
         local_region_threshold self = 10 \<and>
         (\<forall>regions self'.
            get_local_region L self tr X = (Inr regions, self') \<longrightarrow>
            (\<exists>passes. length passes = 20 \<and>
               list_all (\<lambda>(features, ind_arr).
                           query_with L tr X k features = Inr ind_arr \<and>
                           length X \<le> length ind_arr) passes \<and>
               regions = map (\<lambda>j. consensus 10
                                     (concat (map (\<lambda>(features, ind_arr). ind_arr ! j) passes)))
                           [0..<length X]))"
proof -
  have f: "local_region_iterations self = 20" "local_region_threshold self = 10"
    "n_iterations self = n_iter" "local_region_size self = k"
    using LSCP_init_fields [OF assms(1)] assms(2) by simp_all
  show ?thesis
    using f get_local_region_passes [of L self tr X] by auto
qed

theorem region_passes_fixed_witness:
  "n_iterations (demo_lscp\<lparr>n_iterations := 5, local_region_size := 2\<rparr>) = 5 \<and>
   local_region_iterations (demo_lscp\<lparr>n_iterations := 5, local_region_size := 2\<rparr>) = 20 \<and>
   local_region_threshold (demo_lscp\<lparr>n_iterations := 5, local_region_size := 2\<rparr>) = 10 \<and>
   (\<exists>passes. length passes = 20 \<and>
      list_all (\<lambda>(features, ind_arr).
                  query_with demo_library demo_training [[1, 2], [4, 4]] 2 features = Inr ind_arr \<and>
                  length [[1, 2], [4, 4 :: real]] \<le> length ind_arr) passes \<and>
      [[1, 2], [3, 2]] = map (\<lambda>j. consensus 10
                            (concat (map (\<lambda>(features, ind_arr). ind_arr ! j) passes)))
                          [0..<length [[1, 2], [4, 4 :: real]]])"
proof -
  let ?self = "demo_lscp\<lparr>n_iterations := 5, local_region_size := 2\<rparr>"
  have e: "?self = (demo_lscp\<lparr>n_iterations := 5, local_region_size := 2, training := None\<rparr>)
                     \<lparr>training := Some demo_training, local_region_size := 2\<rparr>"
    by (simp add: demo_lscp_def)
  have s: "random_state ?self = Seed 42" "local_region_size ?self = 2"
    "0 < local_region_iterations ?self"
    "local_region_threshold ?self < local_region_iterations ?self"
    by (simp_all add: demo_lscp_def)
  have q: "query_with demo_library demo_training [[1, 2], [4, 4]] (local_region_size ?self) [1]
           = Inr [[1, 2], [3, 2]]"
    using demo_query s(2) by simp
  have g: "get_local_region demo_library ?self demo_training [[1, 2], [4, 4]]
           = (Inr [[1, 2], [3, 2]], ?self)"
    by (rule get_local_region_seed [OF s(1) demo_draw q _ _ s(3,4)]) simp_all
  show ?thesis
    using region_passes_fixed [OF demo_init e, of "[[1, 2], [4, 4]]"] g
    by simp
qed

text \<open>
  The claim as stated fails for \<open>n_iterations = 5\<close>: the object has 20 passes and the
  threshold 10, not 5 and 2, and the 20 passes leave 20 times 2 indices in every
  accumulated row.
\<close>

theorem region_passes_fixed_counterexample:
  "\<exists>self warnings.
     LSCP_init demo_library [det_sum, det_first] 5 2 1 10 (Seed 42) = Inr (self, warnings) \<and>
     n_iterations self = 5 \<and>
     local_region_iterations self = 20 \<and>
     local_region_iterations self \<noteq> n_iterations self \<and>
     local_region_threshold self = 10 \<and>
     local_region_threshold self \<noteq> n_iterations self div 2 \<and>
     map_sum id (map length)
       (fst (region_loop demo_library demo_training [[1, 2], [4, 4]]
               (nat (local_region_iterations self)) [[], []]
               (self\<lparr>training := Some demo_training\<rparr>)))
       = Inr [20 * 2, 20 * 2]"
proof -
  let ?self = "demo_lscp\<lparr>n_iterations := 5, local_region_size := 2\<rparr>"
  have s: "random_state ?self = Seed 42" "local_region_size ?self = 2"
    by (simp_all add: demo_lscp_def)
  have q: "query_with demo_library demo_training [[1, 2], [4, 4]] (local_region_size ?self) [1]
           = Inr [[1, 2], [3, 2]]"
    using demo_query s(2) by simp
  have "region_loop demo_library demo_training [[1, 2], [4, 4]] 20
          (replicate (length [[1, 2], [4, 4 :: real]]) []) ?self
        = (Inr (map (\<lambda>r. concat (replicate 20 r)) [[1, 2], [3, 2]]), ?self)"
    by (rule region_loop_seed_start [OF s(1) demo_draw q]) simp
  then have "map_sum id (map length)
       (fst (region_loop demo_library demo_training [[1, 2], [4, 4]] 20 [[], []] ?self))
       = Inr [20 * 2, 20 * 2]"
    by (simp add: length_concat sum_list_replicate)
  then show ?thesis
    by (simp add: demo_init demo_fit demo_lscp_def)
qed

section \<open>What \<^verbatim>\<open>decision_function\<close> changes\<close>

text \<open>
  C7, as amended. A call of \<^verbatim>\<open>decision_function\<close> leaves the stored training set
  and every attribute other than \<open>local_region_size\<close> and \<open>random_state\<close> as they
  were. An integer seed in \<open>random_state\<close> is unchanged; a generator object is still a
  generator object, advanced by the draws. \<open>local_region_size\<close> is unchanged when the
  call fails the checks of lines 138 to 146, and is otherwise overwritten with the size
  that lines 149 and 150 compute.
\<close>

theorem decision_function_frame:
  "\<exists>rs. snd (decision_function L self X)
          = self\<lparr>local_region_size :=
                   (if validated self X then local_region_size (clamp_region_size self)
                    else local_region_size self),
                 random_state := rs\<rparr> \<and>
        same_kind (random_state self) rs \<and>
        training (snd (decision_function L self X)) = training self"
proof -
  let ?s = "if validated self X then clamp_region_size self else self"
  let ?r = "snd (decision_function L self X)"
  have o: "only_generator_advanced ?s ?r"
    by (rule decision_function_only_generator)
  have s: "?s = self\<lparr>local_region_size := local_region_size ?s\<rparr>"
    by (simp add: clamp_region_size_eq)
  have "?r = ?s\<lparr>random_state := random_state ?r\<rparr>"
    by (rule only_generator_advanced_fields(4) [OF o])
  then have "?r = self\<lparr>local_region_size := local_region_size ?s,
                         random_state := random_state ?r\<rparr>"
    by (subst (asm) s) simp
  moreover have "same_kind (random_state self) (random_state ?r)"
    using only_generator_advanced_fields(5) [OF o]
    by (cases "validated self X") (simp_all add: clamp_region_size_eq)
  moreover have "training ?r = training self"
    using only_generator_advanced_fields(2) [OF o]
    by (cases "validated self X") (simp_all add: clamp_region_size_eq)
  ultimately show ?thesis
    by (intro exI [of _ "random_state ?r"]) (simp split: if_splits)
qed

theorem decision_function_frame_witness:
  "\<exists>rs. snd (decision_function demo_library
               (demo_lscp\<lparr>n_iterations := 20, local_region_size := 30\<rparr>) [[1, 2], [4, 4]])
          = (demo_lscp\<lparr>n_iterations := 20, local_region_size := 30\<rparr>)
              \<lparr>local_region_size := 100, random_state := rs\<rparr> \<and>
        same_kind (Seed 42) rs \<and>
        training (snd (decision_function demo_library
                         (demo_lscp\<lparr>n_iterations := 20, local_region_size := 30\<rparr>)
                         [[1, 2], [4, 4]]))
          = Some demo_training"
  using decision_function_frame [of demo_library
          "demo_lscp\<lparr>n_iterations := 20, local_region_size := 30\<rparr>" "[[1, 2], [4, 4]]"]
    demo_validated [where n_iter = 20 and k = 30]
  by (simp add: clamp_region_size_eq demo_lscp_def)

text \<open>
  The claim as stated fails for a configured region size of 200: the call passes the
  checks and the object holds 100 afterwards.
\<close>

theorem decision_function_frame_counterexample:
  "local_region_size (demo_lscp\<lparr>n_iterations := 20, local_region_size := 200\<rparr>) = 200 \<and>
   validated (demo_lscp\<lparr>n_iterations := 20, local_region_size := 200\<rparr>) [[1, 2], [4, 4]] \<and>
   local_region_size (snd (decision_function demo_library
      (demo_lscp\<lparr>n_iterations := 20, local_region_size := 200\<rparr>) [[1, 2], [4, 4]])) = 100"
proof -
  let ?self = "demo_lscp\<lparr>n_iterations := 20, local_region_size := 200\<rparr>"
  have "local_region_size (snd (decision_function demo_library ?self [[1, 2], [4, 4]]))
        = local_region_size (clamp_region_size ?self)"
    using only_generator_advanced_fields(1)
            [OF decision_function_only_generator [of ?self "[[1, 2], [4, 4]]" demo_library]]
      demo_validated [where n_iter = 20 and k = 200] by simp
  then show ?thesis
    using demo_validated [where n_iter = 20 and k = 200] by (simp add: clamp_region_size_eq demo_lscp_def)
qed

section \<open>The feature subset of a pass\<close>

text \<open>
  C5, as amended. With \<^verbatim>\<open>randint\<close> and \<^verbatim>\<open>sample_without_replacement\<close> as numpy and
  sklearn document them, the feature subset drawn in a local-region pass has at least
  \<^verbatim>\<open>int(n_features * local_min_features)\<close> and fewer than \<open>n_features\<close> features: the
  upper bound of \<^verbatim>\<open>randint\<close> is exclusive, so the subset is never all the features.
\<close>

theorem drawn_features_never_all:
  assumes "randint_in_range L" and "sample_has_size L"
    and "draw_features L self tr = (Inr features, rs)"
  shows "py_int (real (shape1 (X_train_norm tr)) * local_min_features self)
           \<le> int (card (set features)) \<and>
         card (set features) < shape1 (X_train_norm tr) \<and>
         set features \<subset> {0..<shape1 (X_train_norm tr)}"
proof -
  note s = draw_features_size [OF assms]
  have c: "card (set features) = length features"
    using s(3) by (simp add: distinct_card)
  have sub: "set features \<subseteq> {0..<shape1 (X_train_norm tr)}"
    using s(4) by (auto simp: list_all_iff)
  have "set features \<noteq> {0..<shape1 (X_train_norm tr)}"
    using c s(2) by (metis card_atLeastLessThan diff_zero less_irrefl)
  then show ?thesis using s(1,2) c sub by auto
qed

theorem drawn_features_never_all_witness:
  "py_int (real (shape1 (X_train_norm demo_training)) * local_min_features demo_lscp)
     \<le> int (card (set [1 :: nat])) \<and>
   card (set [1 :: nat]) < shape1 (X_train_norm demo_training) \<and>
   set [1] \<subset> {0..<shape1 (X_train_norm demo_training)}"
proof -
  have d: "draw_features demo_library demo_lscp demo_training = (Inr [1], 44)"
    using demo_draw [where n_iter = 20 and k = 2] by (simp add: demo_lscp_def)
  show ?thesis
    by (rule drawn_features_never_all [OF demo_randint_in_range demo_sample_has_size d])
qed

text \<open>
  The claim as stated fails for the two features of the demonstration training set: no
  library that meets the two documented contracts, in no state of the generator, draws
  both.
\<close>

theorem drawn_features_all_counterexample:
  "\<not> (\<exists>(L :: nat library) state features rs.
        randint_in_range L \<and> sample_has_size L \<and>
        draw_features L (demo_lscp\<lparr>random_state := state\<rparr>) demo_training = (Inr features, rs) \<and>
        set features = {0..<shape1 (X_train_norm demo_training)})"
proof
  assume "\<exists>(L :: nat library) state features rs.
        randint_in_range L \<and> sample_has_size L \<and>
        draw_features L (demo_lscp\<lparr>random_state := state\<rparr>) demo_training = (Inr features, rs) \<and>
        set features = {0..<shape1 (X_train_norm demo_training)}"
  then obtain L :: "nat library" and state features rs
    where a: "randint_in_range L" "sample_has_size L"
      "draw_features L (demo_lscp\<lparr>random_state := state\<rparr>) demo_training = (Inr features, rs)"
      and all: "set features = {0..<shape1 (X_train_norm demo_training)}"
    by blast
  have "length features < shape1 (X_train_norm demo_training)"
    and "distinct features"
    using draw_features_size [OF a] by simp_all
  then have "card (set features) < shape1 (X_train_norm demo_training)"
    by (simp add: distinct_card)
  then show False using all by simp
qed

section \<open>Degenerate regions and correlations\<close>

text \<open>
  C2, as amended. \<^verbatim>\<open>decision_function\<close> has no fallback for a test row whose local
  region is empty or has one element: with the indices of the region in range, the
  competence vector of lines 173 to 175 is what the correlation utility returns,
  its undefined signal (NaN) for every detector; the vector goes to the competence
  selector as it is, whose histogram raises \<open>ValueError\<close> on it; and the loop over the
  test rows (\<open>score_rows\<close>, whose result \<^verbatim>\<open>decision_function\<close> returns) ends with an
  error whenever one of the regions is such a region: no row of the batch is scored.
\<close>

theorem degenerate_region_aborts_scoring:
  assumes "length ind_k < 2"
    and "list_all (\<lambda>j. j < length (training_pseudo_label tr)) ind_k"
    and "list_all (\<lambda>j. j < length (train_scores_norm tr)) ind_k"
    and "n_clf self \<le> shape1 (train_scores_norm tr)"
    and "0 < n_clf self"
    and "ind_k \<in> set ind_arr"
  shows "pearson_corr_scores self tr ind_k = Inr (replicate (n_clf self) NaN) \<and>
         get_competent_detectors self (replicate (n_clf self) NaN) = Inl ValueError \<and>
         row_score self tr test_scores_norm i ind_k = Inl ValueError \<and>
         (\<exists>e. score_rows self tr test_scores_norm i0 ind_arr = Inl e)"
proof -
  obtain scores where s: "pearson_corr_scores self tr ind_k = Inr scores"
    using assms(2-4) by (auto simp: pearson_corr_scores_def local_rows_def)
  have r: "scores = replicate (n_clf self) NaN"
    by (rule pearson_corr_scores_degenerate [OF assms(1) s])
  have n: "NaN \<in> set scores"
    using assms(5) r by simp
  have row: "row_score self tr test_scores_norm i ind_k = Inl ValueError" for i
    by (rule row_score_NaN [OF s n])
  then have "\<exists>e. score_rows self tr test_scores_norm i0 ind_arr = Inl e"
    by (intro score_rows_error [OF assms(6)]) simp
  then show ?thesis
    using s r n row get_competent_detectors_NaN [OF n] by simp
qed

theorem degenerate_region_aborts_scoring_witness:
  "pearson_corr_scores demo_lscp demo_training [] = Inr (replicate (n_clf demo_lscp) NaN) \<and>
   get_competent_detectors demo_lscp (replicate (n_clf demo_lscp) NaN) = Inl ValueError \<and>
   row_score demo_lscp demo_training [[3, 1], [9, 4]] 1 [] = Inl ValueError \<and>
   (\<exists>e. score_rows demo_lscp demo_training [[3, 1], [9, 4]] 0 [[0, 1], []] = Inl e)"
proof -
  have h: "length ([] :: nat list) < 2"
    "list_all (\<lambda>j. j < length (training_pseudo_label demo_training)) []"
    "list_all (\<lambda>j. j < length (train_scores_norm demo_training)) []"
    "n_clf demo_lscp \<le> shape1 (train_scores_norm demo_training)"
    "0 < n_clf demo_lscp"
    "[] \<in> set [[0, 1], [] :: nat list]"
    by (simp_all add: demo_lscp_def demo_training_def shape1_def)
  show ?thesis
    by (rule degenerate_region_aborts_scoring [OF h])
qed

text \<open>
  The claim as stated fails for the region \<open>[2]\<close> of one element: its competence
  vector is two NaN, not two zeros; the first test row, of region \<open>[0, 1]\<close>, has the
  score 2, the second raises, and so does the scoring of the two rows.
\<close>

theorem degenerate_region_fallback_counterexample:
  "pearson_corr_scores demo_lscp demo_training [2] = Inr [NaN, NaN] \<and>
   pearson_corr_scores demo_lscp demo_training [2] \<noteq> Inr [Fin 0, Fin 0] \<and>
   row_score demo_lscp demo_training [[3, 1], [9, 4]] 0 [0, 1] = Inr (Fin 2) \<and>
   row_score demo_lscp demo_training [[3, 1], [9, 4]] 1 [2] = Inl ValueError \<and>
   score_rows demo_lscp demo_training [[3, 1], [9, 4]] 0 [[0, 1], [2]] = Inl ValueError"
proof -
  have a: "row_score demo_lscp demo_training [[3, 1], [9, 4]] 0 [0, 1] = Inr (Fin 2)"
    by (simp add: row_score_def demo_corr_equal demo_select_equal np_mean_def
          del: One_nat_def)
  have b: "row_score demo_lscp demo_training [[3, 1], [9, 4]] 1 [2] = Inl ValueError"
    by (rule row_score_NaN [OF demo_corr_single]) simp
  have "score_rows demo_lscp demo_training [[3, 1], [9, 4]] 0 [[0, 1], [2]] = Inl ValueError"
    using a b by simp
  then show ?thesis
    using a b demo_corr_single by simp
qed

text \<open>
  C6, as amended. When, within the local region of a test row, the training scores of
  detector \<open>d\<close> are all equal or the pseudo ground truth is, the competence of \<open>d\<close> is
  the undefined signal (NaN) of the correlation utility, not 0; the vector reaches the
  histogram binning with that NaN in it, and the selector and the row's score raise
  \<open>ValueError\<close>.
\<close>

theorem zero_variance_competence_is_nan:
  assumes "local_rows (training_pseudo_label tr) ind_k = Inr truth"
    and "local_rows (train_scores_norm tr) ind_k = Inr local_scores"
    and "n_clf self \<le> shape1 (train_scores_norm tr)"
    and "d < n_clf self"
    and "list_all (\<lambda>row. row ! d = c) local_scores \<or> list_all (\<lambda>v. v = c) truth"
  shows "\<exists>scores. pearson_corr_scores self tr ind_k = Inr scores \<and>
           length scores = n_clf self \<and>
           scores ! d = NaN \<and>
           get_competent_detectors self scores = Inl ValueError \<and>
           row_score self tr test_scores_norm i ind_k = Inl ValueError"
proof -
  let ?scores = "map (\<lambda>d. pearsonr truth (map (\<lambda>row. row ! d) local_scores)) [0..<n_clf self]"
  have s: "pearson_corr_scores self tr ind_k = Inr ?scores"
    using assms(1-3) by (simp add: pearson_corr_scores_def)
  have "list_all (\<lambda>v. v = c) (map (\<lambda>row. row ! d) local_scores) \<or> list_all (\<lambda>v. v = c) truth"
    using assms(5) by (simp add: list_all_iff)
  then have "pearsonr truth (map (\<lambda>row. row ! d) local_scores) = NaN"
    using pearsonr_constant_x pearsonr_constant_y by blast
  then have d: "?scores ! d = NaN"
    using assms(4) by simp
  then have n: "NaN \<in> set ?scores"
    using assms(4) by (metis length_map length_upt diff_zero nth_mem)
  show ?thesis
    using s d get_competent_detectors_NaN [OF n] row_score_NaN [OF s n]
    by (intro exI [of _ ?scores]) simp
qed

theorem zero_variance_competence_is_nan_witness:
  "\<exists>scores. pearson_corr_scores demo_lscp demo_training [1, 2] = Inr scores \<and>
      length scores = n_clf demo_lscp \<and>
      scores ! 1 = NaN \<and>
      get_competent_detectors demo_lscp scores = Inl ValueError \<and>
      row_score demo_lscp demo_training [[3, 1]] 0 [1, 2] = Inl ValueError"
proof -
  have h: "local_rows (training_pseudo_label demo_training) [1, 2] = Inr [1, 1]"
    "local_rows (train_scores_norm demo_training) [1, 2] = Inr [[1, 1], [1, 1]]"
    "n_clf demo_lscp \<le> shape1 (train_scores_norm demo_training)"
    "1 < n_clf demo_lscp"
    "list_all (\<lambda>row. row ! 1 = 1) [[1, 1], [1, 1 :: real]] \<or> list_all (\<lambda>v. v = 1) [1, 1 :: real]"
    by (simp_all add: local_rows_def demo_lscp_def demo_training_def shape1_def)
  show ?thesis
    by (rule zero_variance_competence_is_nan [OF h])
qed

text \<open>
  The claim as stated fails for the region \<open>[0, 3]\<close>, where the first detector scored 0
  twice: its competence is NaN, not 0, and the NaN reaches the histogram, which raises.
\<close>

theorem zero_variance_competence_counterexample:
  "local_rows (train_scores_norm demo_training) [0, 3] = Inr [[0, 0], [0, 1]] \<and>
   pearson_corr_scores demo_lscp demo_training [0, 3] = Inr [NaN, Fin 1] \<and>
   get_competent_detectors demo_lscp [NaN, Fin 1] = Inl ValueError \<and>
   row_score demo_lscp demo_training [[3, 1]] 0 [0, 3] = Inl ValueError"
proof -
  have "row_score demo_lscp demo_training [[3, 1]] 0 [0, 3] = Inl ValueError"
    by (rule row_score_NaN [OF demo_corr_flat]) simp
  then show ?thesis
    using demo_corr_flat get_competent_detectors_NaN [of "[NaN, Fin 1]" demo_lscp]
    by (simp add: local_rows_def demo_training_def)
qed

section \<open>The competence selector on equal scores\<close>

text \<open>
  C8. For a correlation vector of \<open>n_clf\<close> equal (finite) entries, with at least one
  bin and \<open>n_selected = 1\<close> as the constructor sets it, the competence selector returns
  every detector index, \<open>0\<close> to \<open>n_clf - 1\<close>, each once; and when such a vector is the
  competence of test row \<open>i\<close>, the row's score is the sum of its \<open>n_clf\<close> standardized
  test scores divided by \<open>n_clf\<close>.
\<close>

theorem equal_scores_select_every_detector:
  assumes "scores = replicate (n_clf self) (Fin c)"
    and "0 < n_clf self" and "1 \<le> n_bins self" and "n_selected self = 1"
  shows "get_competent_detectors self scores = Inr [0..<n_clf self] \<and>
         (pearson_corr_scores self tr ind_k = Inr scores \<and>
          i < length test_scores_norm \<and> length (test_scores_norm ! i) = n_clf self \<longrightarrow>
          row_score self tr test_scores_norm i ind_k
            = Inr (Fin (sum_list (test_scores_norm ! i) / real (n_clf self))))"
proof -
  have g: "get_competent_detectors self scores = Inr [0..<n_clf self]"
    unfolding assms(1) by (rule get_competent_detectors_equal [OF assms(2-4)])
  have "row_score self tr test_scores_norm i ind_k
          = Inr (Fin (sum_list (test_scores_norm ! i) / real (n_clf self)))"
    if p: "pearson_corr_scores self tr ind_k = Inr scores"
      and i: "i < length test_scores_norm"
      and l: "length (test_scores_norm ! i) = n_clf self"
  proof -
    have "map (\<lambda>c. test_scores_norm ! i ! c) [0..<n_clf self] = test_scores_norm ! i"
      using l by (metis map_nth)
    moreover have "test_scores_norm ! i \<noteq> []"
      using l assms(2) by auto
    ultimately show ?thesis
      using p g i l by (simp add: row_score_def np_mean_def list_all_iff)
  qed
  then show ?thesis using g by blast
qed

theorem equal_scores_select_every_detector_witness:
  "get_competent_detectors demo_lscp [Fin 1, Fin 1] = Inr [0..<n_clf demo_lscp] \<and>
   pearson_corr_scores demo_lscp demo_training [0, 1] = Inr [Fin 1, Fin 1] \<and>
   row_score demo_lscp demo_training [[3, 1], [9, 4]] 1 [0, 1]
     = Inr (Fin (sum_list ([[3, 1], [9, 4]] ! 1) / real (n_clf demo_lscp)))"
proof -
  have h: "[Fin 1, Fin 1] = replicate (n_clf demo_lscp) (Fin 1)"
    "0 < n_clf demo_lscp" "1 \<le> n_bins demo_lscp" "n_selected demo_lscp = 1"
    by (simp_all add: demo_lscp_def numeral_2_eq_2)
  have l: "1 < length [[3, 1], [9, 4 :: real]]"
    "length ([[3, 1], [9, 4 :: real]] ! 1) = n_clf demo_lscp"
    by (simp_all add: demo_lscp_def)
  show ?thesis
    using equal_scores_select_every_detector [OF h, of demo_training "[0, 1]" 1 "[[3, 1], [9, 4]]"]
      demo_corr_equal l
    by simp
qed

end
